theory Spec2Isabelle
  imports Main "HOL-Library.Sublist"
begin

section \<open>JavaScript string primitives used by the plugin\<close>

text \<open>
  Strings are lists of code units. \<open>s.endsWith(t)\<close>, \<open>s.startsWith(t)\<close> and
  \<open>s.includes(t)\<close> are the suffix, prefix and contiguous-substring tests.
\<close>

definition endsWith :: "string \<Rightarrow> string \<Rightarrow> bool" where
  "endsWith s t = suffix t s"

definition startsWith :: "string \<Rightarrow> string \<Rightarrow> bool" where
  "startsWith s t = prefix t s"

definition includes_str :: "string \<Rightarrow> string \<Rightarrow> bool" where
  "includes_str s t = sublist t s"

text \<open>
  \<open>s.replace(pat, rep)\<close> with a string pattern: only the first occurrence of \<open>pat\<close>
  is replaced, wherever it stands. (The only call in the plugin passes the replacement
  \<open>''\<close>, which has no \<open>$\<close> patterns.)
\<close>

fun replace :: "string \<Rightarrow> string \<Rightarrow> string \<Rightarrow> string" where
  "replace [] pat rep = (if pat = [] then rep else [])"
| "replace (c # cs) pat rep =
     (if prefix pat (c # cs) then rep @ drop (length pat) (c # cs)
      else c # replace cs pat rep)"

text \<open>
  \<open>s.split(sep)\<close> for a one-character separator: the segments between the separators,
  never an empty array (\<open>''.split('.')\<close> is \<open>['']\<close>).
\<close>

fun split :: "string \<Rightarrow> char \<Rightarrow> string list" where
  "split [] sep = [[]]"
| "split (c # cs) sep =
     (if c = sep then [] # split cs sep
      else (case split cs sep of [] \<Rightarrow> [[c]] | w # ws \<Rightarrow> (c # w) # ws))"

text \<open>\<open>xs.at(-1)\<close>: the last element, \<open>undefined\<close> on an empty array.\<close>

definition at_last :: "'a list \<Rightarrow> 'a option" where
  "at_last xs = (if xs = [] then None else Some (last xs))"

text \<open>\<open>xs.join(sep)\<close>.\<close>

fun join :: "string list \<Rightarrow> string \<Rightarrow> string" where
  "join [] sep = []"
| "join [x] sep = x"
| "join (x # y # ys) sep = x @ sep @ join (y # ys) sep"

text \<open>
  A non-negative integer in a template literal (\<open>`${n}`\<close>): its decimal digits. The
  year and the epoch milliseconds the plugin formats are such numbers.
\<close>

definition digitChar :: "nat \<Rightarrow> char" where
  "digitChar d = ''0123456789'' ! d"

fun numberToString :: "nat \<Rightarrow> string" where
  "numberToString n =
     (if n < 10 then [digitChar n]
      else numberToString (n div 10) @ [digitChar (n mod 10)])"

declare numberToString.simps [simp del]

text \<open>A string or \<open>undefined\<close> in a template literal.\<close>

definition templateString :: "string option \<Rightarrow> string" where
  "templateString v = (case v of None \<Rightarrow> ''undefined'' | Some s \<Rightarrow> s)"


section \<open>types.ts\<close>

datatype 'a Result = Success (data: 'a) | Failure (error: string)

record R2UploaderSettings =
  endpoint :: string
  accessKeyId :: string
  secretAccessKey :: string
  bucketName :: string
  region :: string
  customDomain :: string
  pathPrefix :: string
  useYearSubdirectory :: bool
  enabledFolders :: "string list"

record UploadResult =
  url :: string
  fileName :: string
  timestamp :: nat


section \<open>r2-uploader.ts: keys, URLs and names\<close>

text \<open>
  \<open>generateFileKey\<close> reads the clock (\<open>new Date().getFullYear()\<close>); the year it
  reads is the last argument here.
\<close>

definition normalizedPrefix :: "string \<Rightarrow> string" where
  "normalizedPrefix pfx = (if endsWith pfx ''/'' then pfx else pfx @ ''/'')"

definition generateFileKey :: "string \<Rightarrow> string \<Rightarrow> bool \<Rightarrow> nat \<Rightarrow> string" where
  "generateFileKey pfx fName useYear fullYear =
     (let subdirectory = (if useYear then numberToString fullYear @ ''/'' else '''')
      in normalizedPrefix pfx @ subdirectory @ fName)"

text \<open>\<open>a || b\<close> on strings: \<open>a\<close> unless it is empty.\<close>

definition createUrl :: "R2UploaderSettings \<Rightarrow> string \<Rightarrow> string" where
  "createUrl settings key =
     (let baseUrl =
        (if customDomain settings \<noteq> [] then customDomain settings
         else ''https://'' @ bucketName settings @ ''.'' @
              replace (endpoint settings) ''https://'' '''')
      in baseUrl @ ''/'' @ key)"

text \<open>\<open>generateUniqueFileName\<close> reads \<open>Date.now()\<close>; the value read is the last argument.\<close>

definition generateUniqueFileName :: "string \<Rightarrow> nat \<Rightarrow> string" where
  "generateUniqueFileName originalName now =
     (let extension = at_last (split originalName (CHR ''.''))
      in numberToString now @ ''.'' @ templateString extension)"

section \<open>Values thrown by the platform\<close>

text \<open>
  A \<open>catch (error)\<close> clause receives a value of type \<open>unknown\<close>. The plugin looks at
  three things: whether it is an instance of \<open>TypeError\<close>, its \<open>message\<close>, and its
  string conversion in a template literal. An error object converts as
  \<open>Error.prototype.toString\<close> does: the name, \<open>": "\<close> and the message, or the one
  of them that is not empty. A value that is not an error object is kept by its string
  conversion, when it has one. A symbol has none: a template literal that holds it
  throws a \<open>TypeError\<close>.
\<close>

datatype js_thrown =
    ErrorObject (isTypeError: bool) (errorName: string) (errorMessage: string)
  | NonError string
  | SymbolValue

fun instanceofTypeError :: "js_thrown \<Rightarrow> bool" where
  "instanceofTypeError (ErrorObject t n m) = t"
| "instanceofTypeError (NonError s) = False"
| "instanceofTypeError SymbolValue = False"

definition symbolConversionError :: js_thrown where
  "symbolConversionError =
     ErrorObject True ''TypeError'' ''Cannot convert a Symbol value to a string''"

text \<open>
  The template literal \<open>`${error}`\<close>: the string, or what the conversion throws.
\<close>

fun templateLiteral :: "js_thrown \<Rightarrow> js_thrown + string" where
  "templateLiteral (ErrorObject t n m) =
     Inr (if n = [] then m else if m = [] then n else n @ '': '' @ m)"
| "templateLiteral (NonError s) = Inr s"
| "templateLiteral SymbolValue = Inl symbolConversionError"


section \<open>r2-uploader.ts: the upload\<close>

text \<open>
  A \<open>File\<close> as the uploader sees it: name, MIME type, size, and what
  \<open>file.arrayBuffer()\<close> does, which is to reject with a thrown value or to give the
  bytes.
\<close>

record File =
  f_name :: string
  f_type :: string
  f_size :: nat
  arrayBuffer :: "js_thrown + nat list"

record FileInfo =
  i_name :: string
  i_type :: string
  i_size :: nat
  content :: "nat list"

record PutObjectCommand =
  Bucket :: string
  Key :: string
  Body :: "nat list"
  ContentType :: string

text \<open>
  What one call of \<open>uploadFile\<close> observes of the outside world: the year of
  \<open>new Date()\<close> when the key is built, what \<open>client.send(command)\<close> does for the
  client built from the settings (\<open>None\<close>: the send resolves; \<open>Some e\<close>: \<open>e\<close> is
  thrown), and \<open>Date.now()\<close> after the send. (The constructors of the client and of
  the command are taken not to throw.)
\<close>

record UploadEnv =
  fullYear :: nat
  send :: "R2UploaderSettings \<Rightarrow> PutObjectCommand \<Rightarrow> js_thrown option"
  dateNow :: nat

text \<open>
  A function whose body can throw returns a sum: \<open>Inl\<close> the value thrown, \<open>Inr\<close> the
  value returned; for an \<open>async\<close> function these are the rejection and the fulfilment
  of its promise. In \<open>fileToFileInfo\<close> and in \<open>getErrorMessage\<close> the only thing that
  can throw is the template literal on the caught value.
\<close>

definition fileToFileInfo :: "File \<Rightarrow> js_thrown + FileInfo Result" where
  "fileToFileInfo file =
     (case arrayBuffer file of
        Inr bytes \<Rightarrow>
          Inr (Success \<lparr>i_name = f_name file, i_type = f_type file, i_size = f_size file,
                        content = bytes\<rparr>)
      | Inl err \<Rightarrow>
          (case templateLiteral err of
             Inr txt \<Rightarrow> Inr (Failure (''Failed to read file: '' @ txt))
           | Inl thrown \<Rightarrow> Inl thrown))"

definition validateSettings :: "R2UploaderSettings \<Rightarrow> R2UploaderSettings Result" where
  "validateSettings settings =
     (let errors = [];
          errors = (if endpoint settings = [] then errors @ [''endpoint''] else errors);
          errors = (if accessKeyId settings = [] then errors @ [''accessKeyId''] else errors);
          errors = (if secretAccessKey settings = [] then errors @ [''secretAccessKey'']
                    else errors);
          errors = (if bucketName settings = [] then errors @ [''bucketName''] else errors)
      in if length errors > 0
         then Failure (''Missing required settings: '' @ join errors '', '')
         else Success settings)"

definition corsErrorMessage :: string where
  \<open>corsErrorMessage =
     ''Upload failed: CORS error. Please add "app://obsidian.md" to AllowedOrigins in your R2 bucket CORS policy.''\<close>

definition getErrorMessage :: "js_thrown \<Rightarrow> js_thrown + string" where
  "getErrorMessage err =
     (if instanceofTypeError err \<and> includes_str (errorMessage err) ''Failed to fetch''
      then Inr corsErrorMessage
      else (case templateLiteral err of
              Inr txt \<Rightarrow> Inr (''Upload failed: '' @ txt)
            | Inl thrown \<Rightarrow> Inl thrown))"

text \<open>
  \<open>uploadFile\<close>: the first component is its promise, rejected or fulfilled with a
  \<open>Result\<close>; the second lists the commands it handed to \<open>client.send\<close>, in order, so
  that "no upload was attempted" can be stated. The \<open>try\<close> block is the last \<open>case\<close>:
  a value thrown there goes to \<open>getErrorMessage\<close>, and what \<open>getErrorMessage\<close> throws
  in the \<open>catch\<close> clause leaves the function.
\<close>

definition uploadFile ::
  "UploadEnv \<Rightarrow> R2UploaderSettings \<Rightarrow> File \<Rightarrow> string \<Rightarrow>
     (js_thrown + UploadResult Result) \<times> PutObjectCommand list" where
  "uploadFile env settings file fName =
     (case validateSettings settings of
        Failure e \<Rightarrow> (Inr (Failure e), [])
      | Success _ \<Rightarrow>
          (case fileToFileInfo file of
             Inl thrown \<Rightarrow> (Inl thrown, [])
           | Inr (Failure e) \<Rightarrow> (Inr (Failure e), [])
           | Inr (Success fileInfo) \<Rightarrow>
               (let key = generateFileKey (pathPrefix settings) fName
                            (useYearSubdirectory settings) (fullYear env);
                    command = \<lparr>Bucket = bucketName settings, Key = key,
                                 Body = content fileInfo, ContentType = i_type fileInfo\<rparr>
                in (case send env settings command of
                      Some err \<Rightarrow>
                        (case getErrorMessage err of
                           Inr message \<Rightarrow> (Inr (Failure message), [command])
                         | Inl thrown \<Rightarrow> (Inl thrown, [command]))
                    | None \<Rightarrow>
                        (Inr (Success \<lparr>url = createUrl settings key, fileName = fName,
                                        timestamp = dateNow env\<rparr>),
                         [command])))))"

section \<open>settings-tab.ts: the folder chooser and the Add button\<close>

text \<open>\<open>FolderSuggestModal.onChooseItem\<close>: the value handed on for a chosen folder path.\<close>

definition onChooseItem :: "string \<Rightarrow> string" where
  "onChooseItem folderPath = (if folderPath = ''/'' then '''' else folderPath)"

text \<open>
  The Browse button opens the chooser with a callback that writes the value handed on
  into the text input. The input is modelled by its value; \<open>browseChoose\<close> is that
  value after a folder has been chosen.
\<close>

definition browseChoose :: "string \<Rightarrow> string" where
  "browseChoose folderPath = onChooseItem folderPath"

text \<open>
  \<open>s.trim()\<close>: the string without the white space at its two ends. (Of the white space
  characters those below code 128 are modelled: tab, line feed, vertical tab, form
  feed, carriage return and space.)
\<close>

definition isWhiteSpace :: "char \<Rightarrow> bool" where
  "isWhiteSpace c =
     (c = CHR 0x09 \<or> c = CHR 0x0A \<or> c = CHR 0x0B \<or> c = CHR 0x0C \<or> c = CHR 0x0D \<or>
      c = CHR '' '')"

definition trim :: "string \<Rightarrow> string" where
  "trim s = rev (dropWhile isWhiteSpace (rev (dropWhile isWhiteSpace s)))"

text \<open>
  The click handler of the Add button, given the value of the text input: the trimmed
  value is appended to the allow-list and saved, unless it is empty. (The settings it
  extends are the ones the tab was rendered with, which every save makes current.)
\<close>

definition addFolder :: "string \<Rightarrow> R2UploaderSettings \<Rightarrow> R2UploaderSettings" where
  "addFolder inputValue settings =
     (if trim inputValue \<noteq> []
      then settings\<lparr>enabledFolders := enabledFolders settings @ [trim inputValue]\<rparr>
      else settings)"


section \<open>main.ts: gating, dispatch, insertion, notices\<close>

text \<open>
  The host application as the handlers see it: the path of the active file, if there is
  one, and the editor of the active markdown view, if there is one. Of an editor the
  plugin reads the cursor; the \<open>replaceRange\<close> calls it makes are returned as a list of
  (text, position) pairs, in order. A notice is its message and its timeout.
\<close>

record EditorPosition =
  line :: nat
  ch :: nat

record Editor =
  cursor :: EditorPosition

record App =
  activeFilePath :: "string option"
  activeMarkdownView :: "Editor option"

type_synonym Notice = "string \<times> nat"

type_synonym ReplaceRangeCall = "string \<times> EditorPosition"

definition getCurrentFilePath :: "App \<Rightarrow> string" where
  "getCurrentFilePath app = (case activeFilePath app of Some p \<Rightarrow> p | None \<Rightarrow> '''')"

definition isInEnabledFolder :: "string \<Rightarrow> string list \<Rightarrow> bool" where
  "isInEnabledFolder filePath folders =
     (if filePath = [] then False
      else if length folders = 0 then True
      else list_ex (\<lambda>folder. startsWith filePath (folder @ ''/'') \<or> filePath = folder)
             folders)"

definition showNotice :: "string \<Rightarrow> nat \<Rightarrow> Notice" where
  "showNotice message timeout = (message, timeout)"

text \<open>
  The uploads of one batch. \<open>files.map\<close> names every file first (each call of
  \<open>generateUniqueFileName\<close> reads \<open>Date.now()\<close>), and each upload then observes the
  world on its own: \<open>nameClock i\<close> and \<open>uploadEnv i\<close> are what the \<open>i\<close>-th file's naming
  and upload observe. A promise is rejected (\<open>Inl\<close>) or fulfilled (\<open>Inr\<close>);
  \<open>Promise.all\<close> is rejected with the first rejection of its promises and is otherwise
  fulfilled with all their values, in the order of the promises. (Which of several
  rejections comes first in time is not modelled: the first in the order of the
  promises is taken. Every rejection of an upload carries the same value, the
  \<open>TypeError\<close> of the string conversion.)
\<close>

record BatchEnv =
  nameClock :: "nat \<Rightarrow> nat"
  uploadEnv :: "nat \<Rightarrow> UploadEnv"

fun promiseAll :: "(js_thrown + 'a) list \<Rightarrow> js_thrown + 'a list" where
  "promiseAll [] = Inr []"
| "promiseAll (Inl e # ps) = Inl e"
| "promiseAll (Inr v # ps) = (case promiseAll ps of Inl e \<Rightarrow> Inl e | Inr vs \<Rightarrow> Inr (v # vs))"

text \<open>
  \<open>processFiles\<close>: \<open>files.map\<close> starts every upload, and every upload runs to its
  end whatever becomes of the others; \<open>Promise.all\<close> decides only what the caller gets.
  The second component lists the commands of all uploads, file by file.
\<close>

definition processFiles ::
  "BatchEnv \<Rightarrow> File list \<Rightarrow> R2UploaderSettings \<Rightarrow>
     (js_thrown + UploadResult Result list) \<times> PutObjectCommand list" where
  "processFiles benv files settings =
     (let uploads =
            map (\<lambda>(i, file).
                   uploadFile (uploadEnv benv i) settings file
                     (generateUniqueFileName (f_name file) (nameClock benv i)))
              (enumerate 0 files)
      in (promiseAll (map fst uploads), concat (map snd uploads)))"

record FileProcessResult =
  originalName :: string
  result :: "UploadResult Result"

record MarkdownLink =
  displayName :: string
  linkUrl :: string

definition markdownLink :: "MarkdownLink \<Rightarrow> string" where
  "markdownLink l = ''!['' @ displayName l @ '']('' @ linkUrl l @ '')''"

text \<open>
  \<open>insertMarkdownLinks\<close>: the \<open>forEach\<close> loop with its variable \<open>insertPosition\<close>,
  which starts at the cursor.
\<close>

fun insertLinksFrom :: "EditorPosition \<Rightarrow> MarkdownLink list \<Rightarrow> ReplaceRangeCall list" where
  "insertLinksFrom insertPosition [] = []"
| "insertLinksFrom insertPosition (l # ls) =
     (markdownLink l, insertPosition) #
     insertLinksFrom (insertPosition\<lparr>ch := ch insertPosition + length (markdownLink l)\<rparr>) ls"

definition insertMarkdownLinks :: "Editor \<Rightarrow> MarkdownLink list \<Rightarrow> ReplaceRangeCall list" where
  "insertMarkdownLinks editor links = insertLinksFrom (cursor editor) links"

text \<open>
  The display names go through \<open>sanitize(name, { replacement: '_' })\<close> of the package
  \<open>sanitize-filename\<close>, which is not part of the repository: it is the parameter
  \<open>sanitize\<close> of the functions that call it.
\<close>

definition showProcessResults :: "(string \<Rightarrow> string) \<Rightarrow> FileProcessResult list \<Rightarrow> Notice list" where
  "showProcessResults sanitize results =
     map (\<lambda>r. let safeName = sanitize (originalName r)
               in (case result r of
                     Success d \<Rightarrow> showNotice (''Successfully uploaded '' @ safeName) 2000
                   | Failure e \<Rightarrow>
                       showNotice (''Failed to upload '' @ safeName @ '': '' @ e) 0))
       results"

text \<open>
  What an \<open>async\<close> function of the plugin did: the notices shown, the commands sent,
  the edits made, whether \<open>preventDefault\<close> was called, and the value its promise is
  rejected with, if it is.
\<close>

record Effects =
  notices :: "Notice list"
  network :: "PutObjectCommand list"
  edits :: "ReplaceRangeCall list"
  defaultPrevented :: bool
  rejected :: "js_thrown option"

definition isSuccessResult :: "'a Result \<Rightarrow> bool" where
  "isSuccessResult r = (case r of Success _ \<Rightarrow> True | Failure _ \<Rightarrow> False)"

text \<open>
  \<open>toMarkdownLinks\<close> is the argument of \<open>insertMarkdownLinks\<close> in \<open>processImages\<close>:
  the \<open>filter\<close> on \<open>result.success\<close> and the \<open>map\<close> to display name and URL.
\<close>

definition toMarkdownLinks :: "(string \<Rightarrow> string) \<Rightarrow> FileProcessResult list \<Rightarrow> MarkdownLink list" where
  "toMarkdownLinks sanitize processResults =
     map (\<lambda>r. \<lparr>displayName = sanitize (originalName r),
                 linkUrl = (case result r of Success d \<Rightarrow> url d | Failure e \<Rightarrow> '''')\<rparr>)
       (filter (\<lambda>r. isSuccessResult (result r)) processResults)"

text \<open>
  \<open>processImages\<close>: when the \<open>await\<close> of \<open>processFiles\<close> throws, nothing is inserted
  and no notice is shown, and the value thrown leaves the function.
\<close>

definition processImages ::
  "(string \<Rightarrow> string) \<Rightarrow> BatchEnv \<Rightarrow> File list \<Rightarrow> Editor \<Rightarrow> R2UploaderSettings \<Rightarrow>
     Effects" where
  "processImages sanitize benv files editor settings =
     (case processFiles benv files settings of
        (Inl thrown, sent) \<Rightarrow>
          \<lparr>notices = [], network = sent, edits = [], defaultPrevented = False,
           rejected = Some thrown\<rparr>
      | (Inr results, sent) \<Rightarrow>
          (let processResults =
                 map (\<lambda>(file, r). \<lparr>originalName = f_name file, result = r\<rparr>)
                   (zip files results)
           in \<lparr>notices = showProcessResults sanitize processResults,
                network = sent,
                edits = insertMarkdownLinks editor (toMarkdownLinks sanitize processResults),
                defaultPrevented = False,
                rejected = None\<rparr>))"

definition extractDropFiles :: "File list \<Rightarrow> File list" where
  "extractDropFiles dataTransferFiles =
     filter (\<lambda>file. startsWith (f_type file) ''image/'') dataTransferFiles"

record ClipboardItem =
  kind :: string
  item_type :: string
  getAsFile :: "File option"

definition extractPasteFiles :: "ClipboardItem list \<Rightarrow> File list" where
  "extractPasteFiles items =
     List.map_filter getAsFile
       (filter (\<lambda>item. kind item = ''file'' \<and> startsWith (item_type item) ''image/'') items)"

definition validateConditions :: "App \<Rightarrow> R2UploaderSettings \<Rightarrow> bool \<times> Notice list" where
  "validateConditions app settings =
     (if length (enabledFolders settings) > 0 \<and>
         \<not> isInEnabledFolder (getCurrentFilePath app) (enabledFolders settings)
      then (False, [showNotice ''Current folder is not enabled for uploads'' 4000])
      else
        (let hasRequiredSettings =
               (endpoint settings \<noteq> [] \<and> accessKeyId settings \<noteq> [] \<and>
                secretAccessKey settings \<noteq> [] \<and> bucketName settings \<noteq> [])
         in if \<not> hasRequiredSettings
            then (False,
                  [showNotice
                     ''R2 uploader settings are incomplete. Please check the plugin settings.''
                     4000])
            else (True, [])))"

definition noEffects :: Effects where
  "noEffects =
     \<lparr>notices = [], network = [], edits = [], defaultPrevented = False, rejected = None\<rparr>"

text \<open>
  The \<open>catch\<close> clause of the two handlers, entered with the notices of the gate, what
  the pipeline did, and the value it threw: the notice \<open>Plugin error: ${error}\<close>, whose
  template literal can throw in its turn.
\<close>

definition handlerCatch :: "Notice list \<Rightarrow> Effects \<Rightarrow> js_thrown \<Rightarrow> Effects" where
  "handlerCatch shown eff thrown =
     (case templateLiteral thrown of
        Inr txt \<Rightarrow>
          eff\<lparr>notices := shown @ notices eff @ [showNotice (''Plugin error: '' @ txt) 4000],
              defaultPrevented := True, rejected := None\<rparr>
      | Inl thrown' \<Rightarrow>
          eff\<lparr>notices := shown @ notices eff, defaultPrevented := True,
              rejected := Some thrown'\<rparr>)"

definition handleDrop ::
  "(string \<Rightarrow> string) \<Rightarrow> BatchEnv \<Rightarrow> File list \<Rightarrow> App \<Rightarrow> R2UploaderSettings \<Rightarrow> Effects" where
  "handleDrop sanitize benv dataTransferFiles app settings =
     (case activeMarkdownView app of
        None \<Rightarrow> noEffects
      | Some activeView \<Rightarrow>
          (case validateConditions app settings of
             (False, shown) \<Rightarrow> noEffects\<lparr>notices := shown\<rparr>
           | (True, shown) \<Rightarrow>
               (let imageFiles = extractDropFiles dataTransferFiles
                in if length imageFiles = 0 then noEffects\<lparr>notices := shown\<rparr>
                   else
                     (let eff = processImages sanitize benv imageFiles activeView settings
                      in (case rejected eff of
                            Some thrown \<Rightarrow> handlerCatch shown eff thrown
                          | None \<Rightarrow>
                              eff\<lparr>notices := shown @ notices eff,
                                  defaultPrevented := True\<rparr>)))))"

definition handlePaste ::
  "(string \<Rightarrow> string) \<Rightarrow> BatchEnv \<Rightarrow> ClipboardItem list \<Rightarrow> Editor \<Rightarrow> App \<Rightarrow>
     R2UploaderSettings \<Rightarrow> Effects" where
  "handlePaste sanitize benv items editor app settings =
     (case activeMarkdownView app of
        None \<Rightarrow> noEffects
      | Some activeView \<Rightarrow>
          (case validateConditions app settings of
             (False, shown) \<Rightarrow> noEffects\<lparr>notices := shown\<rparr>
           | (True, shown) \<Rightarrow>
               (let imageFiles = extractPasteFiles items
                in if length imageFiles = 0 then noEffects\<lparr>notices := shown\<rparr>
                   else
                     (let eff = processImages sanitize benv imageFiles editor settings
                      in (case rejected eff of
                            Some thrown \<Rightarrow> handlerCatch shown eff thrown
                          | None \<Rightarrow>
                              eff\<lparr>notices := shown @ notices eff,
                                  defaultPrevented := True\<rparr>)))))"

section \<open>Notions used to state the properties\<close>

text \<open>
  The decimal value of a digit string, to say that \<open>numberToString\<close> writes the number
  it is given.
\<close>

definition digitVal :: "char \<Rightarrow> nat" where
  "digitVal c = length (takeWhile (\<lambda>d. d \<noteq> c) ''0123456789'')"

definition digitsValue :: "string \<Rightarrow> nat" where
  "digitsValue s = foldl (\<lambda>a c. 10 * a + digitVal c) 0 s"

text \<open>
  The specification's "last segment" of a file name: what follows the last \<open>.\<close>, or the
  whole name when it has no \<open>.\<close>.
\<close>

definition lastSegment :: "string \<Rightarrow> string" where
  "lastSegment s = rev (takeWhile (\<lambda>c. c \<noteq> CHR ''.'') (rev s))"

text \<open>
  The specification's folder condition: the path starts with some listed folder followed
  by the separator, or equals some listed folder.
\<close>

definition folderMatch :: "string \<Rightarrow> string list \<Rightarrow> bool" where
  "folderMatch filePath folders =
     (\<exists>folder \<in> set folders. startsWith filePath (folder @ ''/'') \<or> filePath = folder)"

text \<open>The settings and the file of the repository's tests (\<open>test/utils/test-helpers.ts\<close>).\<close>

definition createValidSettings :: R2UploaderSettings where
  "createValidSettings =
     \<lparr>endpoint = ''https://r2.cloudflarestorage.com'', accessKeyId = ''test-key'',
      secretAccessKey = ''test-secret'', bucketName = ''test-bucket'', region = ''auto'',
      customDomain = '''', pathPrefix = ''images/'', useYearSubdirectory = False,
      enabledFolders = []\<rparr>"

definition createMockFile :: "string \<Rightarrow> string \<Rightarrow> File" where
  "createMockFile fName fType =
     \<lparr>f_name = fName, f_type = fType, f_size = 4, arrayBuffer = Inr [116, 101, 115, 116]\<rparr>"

text \<open>An upload environment in which every send resolves, at the tests' fixed time.\<close>

definition resolvingEnv :: UploadEnv where
  "resolvingEnv = \<lparr>fullYear = 2022, send = (\<lambda>settings command. None), dateNow = 1640995200000\<rparr>"

definition rejectingEnv :: "js_thrown \<Rightarrow> UploadEnv" where
  "rejectingEnv e = \<lparr>fullYear = 2022, send = (\<lambda>settings command. Some e), dateNow = 1640995200000\<rparr>"

text \<open>
  The specification's "fields that are empty, by name": the names of the four required
  fields whose value is the empty string, in the order in which they are checked.
\<close>

definition missingFields :: "R2UploaderSettings \<Rightarrow> string list" where
  "missingFields settings =
     map fst (filter (\<lambda>(n, v). v = [])
       [(''endpoint'', endpoint settings), (''accessKeyId'', accessKeyId settings),
        (''secretAccessKey'', secretAccessKey settings), (''bucketName'', bucketName settings)])"

text \<open>The command \<open>uploadFile\<close> builds for a file whose bytes have been read.\<close>

definition putCommand ::
  "UploadEnv \<Rightarrow> R2UploaderSettings \<Rightarrow> File \<Rightarrow> string \<Rightarrow> nat list \<Rightarrow> PutObjectCommand" where
  "putCommand env settings file fName bytes =
     \<lparr>Bucket = bucketName settings,
      Key = generateFileKey (pathPrefix settings) fName (useYearSubdirectory settings)
              (fullYear env),
      Body = bytes, ContentType = f_type file\<rparr>"

text \<open>
  The editor and the application of the repository's test doubles: the cursor at line
  0, column 0, and an active markdown view on the file with the given path, if any.
\<close>

definition mockEditor :: Editor where
  "mockEditor = \<lparr>cursor = \<lparr>line = 0, ch = 0\<rparr>\<rparr>"

definition mockApp :: "string option \<Rightarrow> App" where
  "mockApp path = \<lparr>activeFilePath = path, activeMarkdownView = Some mockEditor\<rparr>"

text \<open>
  The URL of an upload and the text of its link, as functions of what went into them.
\<close>

definition uploadedUrl :: "UploadEnv \<Rightarrow> R2UploaderSettings \<Rightarrow> string \<Rightarrow> string" where
  "uploadedUrl env settings fName =
     createUrl settings
       (generateFileKey (pathPrefix settings) fName (useYearSubdirectory settings)
          (fullYear env))"

definition imageLink :: "string \<Rightarrow> string \<Rightarrow> string" where
  "imageLink shownName target = ''!['' @ shownName @ '']('' @ target @ '')''"

text \<open>The two image files of the repository's tests, named at consecutive milliseconds.\<close>

definition twoFiles :: "File list" where
  "twoFiles = [createMockFile ''image.png'' ''image/png'', createMockFile ''photo.jpg'' ''image/jpeg'']"

definition twoEnv :: BatchEnv where
  "twoEnv = \<lparr>nameClock = (\<lambda>i. 1640995200000 + i), uploadEnv = (\<lambda>i. resolvingEnv)\<rparr>"


text \<open>
  The specification's fetch-failure signature: a \<open>TypeError\<close> whose message contains
  the text \<open>Failed to fetch\<close>.
\<close>

fun matchesCorsSignature :: "js_thrown \<Rightarrow> bool" where
  "matchesCorsSignature (ErrorObject t n m) = (t \<and> includes_str m ''Failed to fetch'')"
| "matchesCorsSignature (NonError s) = False"
| "matchesCorsSignature SymbolValue = False"

text \<open>Whether a promise or a call ended with a thrown value.\<close>

definition isRejected :: "js_thrown + 'a \<Rightarrow> bool" where
  "isRejected p = (case p of Inl e \<Rightarrow> True | Inr v \<Rightarrow> False)"







text \<open>
  The position at which a text that was inserted at a position ends: on the same line,
  further by the length of the text, when the text has no line feed; otherwise on the
  line of its last segment, behind that segment.
\<close>

definition endOfInsertion :: "EditorPosition \<Rightarrow> string \<Rightarrow> EditorPosition" where
  "endOfInsertion pos txt =
     (case split txt (CHR 0x0A) of
        [] \<Rightarrow> pos
      | [s] \<Rightarrow> pos\<lparr>ch := ch pos + length s\<rparr>
      | s # rest \<Rightarrow> \<lparr>line = line pos + length rest, ch = length (last rest)\<rparr>)"

text \<open>
  Stand-ins for the sanitizer in the examples: every character of a list of disallowed
  ones is replaced by \<open>_\<close>. With the characters that the package replaces as illegal in
  file names, and with the line breaks among its control characters, the stand-in
  gives what the package gives for the names of the examples. The properties are
  stated for an arbitrary sanitizer.
\<close>

definition replaceDisallowed :: "char list \<Rightarrow> string \<Rightarrow> string" where
  "replaceDisallowed disallowed nm = map (\<lambda>c. if c \<in> set disallowed then CHR ''_'' else c) nm"

definition pathIllegal :: "char list" where
  "pathIllegal =
     [CHR ''/'', CHR ''?'', CHR ''<'', CHR ''>'', CHR 0x5C, CHR '':'', CHR ''*'', CHR ''|'',
      CHR 0x22, CHR 0x0A, CHR 0x0D]"


text \<open>
  A batch environment for the two files of the tests in which the send of the second
  file throws a symbol.
\<close>

definition symbolEnv :: BatchEnv where
  "symbolEnv =
     \<lparr>nameClock = (\<lambda>i. 1640995200000 + i),
      uploadEnv = (\<lambda>i. if i = 1 then rejectingEnv SymbolValue else resolvingEnv)\<rparr>"

section \<open>Strings and numbers: auxiliary facts\<close>

lemma replace_prefix: "replace (pat @ rest) pat rep = rep @ rest"
proof (cases "pat @ rest")
  case Nil
  then show ?thesis by simp
next
  case (Cons c cs)
  have p: "prefix pat (c # cs)"
    using Cons by (metis prefixI)
  have d: "drop (length pat) (c # cs) = rest"
    using Cons by (metis append_eq_conv_conj)
  show ?thesis
    using p d Cons by simp
qed

lemma replace_absent: "\<not> sublist pat s \<Longrightarrow> replace s pat rep = s"
proof (induction s)
  case Nil
  then show ?case by auto
next
  case (Cons c cs)
  have np: "\<not> prefix pat (c # cs)"
    using Cons.prems prefix_imp_sublist by blast
  have ns: "\<not> sublist pat cs"
    using Cons.prems by (meson sublist_Cons_right)
  show ?case using np ns Cons.IH by simp
qed

lemma lt10_cases: "d < (10::nat) \<Longrightarrow> d = 0 \<or> d = 1 \<or> d = 2 \<or> d = 3 \<or> d = 4 \<or> d = 5 \<or> d = 6 \<or> d = 7 \<or> d = 8 \<or> d = 9"
  by arith

lemma digitVal_digitChar: "d < 10 \<Longrightarrow> digitVal (digitChar d) = d"
  using lt10_cases[of d] by (auto simp: digitVal_def digitChar_def)

lemma digitChar_not_dot: "d < 10 \<Longrightarrow> digitChar d \<noteq> CHR ''.''"
  using lt10_cases[of d] by (auto simp: digitChar_def)

lemma digitsValue_snoc: "digitsValue (s @ [c]) = 10 * digitsValue s + digitVal c"
  by (simp add: digitsValue_def)

lemma digitsValue_numberToString: "digitsValue (numberToString n) = n"
proof (induction n rule: numberToString.induct)
  case (1 n)
  show ?case
  proof (cases "n < 10")
    case True
    then show ?thesis
      by (simp add: numberToString.simps[of n] digitsValue_def digitVal_digitChar)
  next
    case False
    then show ?thesis
      using 1 by (simp add: numberToString.simps[of n] digitsValue_snoc digitVal_digitChar)
  qed
qed

lemma numberToString_inj: "numberToString a = numberToString b \<Longrightarrow> a = b"
  by (metis digitsValue_numberToString)

lemma numberToString_no_dot: "CHR ''.'' \<notin> set (numberToString n)"
proof (induction n rule: numberToString.induct)
  case (1 n)
  show ?case
  proof (cases "n < 10")
    case True
    then show ?thesis
      by (simp add: numberToString.simps[of n] digitChar_not_dot[THEN not_sym])
  next
    case False
    then show ?thesis
      using 1 by (simp add: numberToString.simps[of n] digitChar_not_dot[THEN not_sym])
  qed
qed

lemma split_not_Nil: "split s sep \<noteq> []"
  by (induction s) (auto split: list.splits)

lemma split_no_sep: "sep \<notin> set s \<Longrightarrow> split s sep = [s]"
  by (induction s) auto

lemma split_has_sep: "sep \<in> set s \<Longrightarrow> \<exists>w v vs. split s sep = w # v # vs"
proof (induction s)
  case Nil
  then show ?case by simp
next
  case (Cons c cs)
  show ?case
  proof (cases "c = sep")
    case True
    then show ?thesis
      using split_not_Nil[of cs sep] by (cases "split cs sep") auto
  next
    case False
    then have "sep \<in> set cs" using Cons.prems by simp
    then obtain w v vs where "split cs sep = w # v # vs"
      using Cons.IH by blast
    then show ?thesis using False by simp
  qed
qed

lemma lastSegment_no_dot: "CHR ''.'' \<notin> set s \<Longrightarrow> lastSegment s = s"
proof -
  assume a: "CHR ''.'' \<notin> set s"
  have "takeWhile (\<lambda>c. c \<noteq> CHR ''.'') (rev s) = rev s"
    using a by (auto simp: takeWhile_eq_all_conv)
  then show ?thesis
    unfolding lastSegment_def by (simp only: rev_rev_ident)
qed

lemma lastSegment_Cons:
  "lastSegment (c # cs) =
     (if CHR ''.'' \<in> set cs then lastSegment cs
      else if c = CHR ''.'' then cs else c # cs)"
  by (auto simp: lastSegment_def takeWhile_append takeWhile_eq_all_conv)

lemma last_split: "last (split s (CHR ''.'')) = lastSegment s"
proof (induction s)
  case Nil
  then show ?case by (simp add: lastSegment_def)
next
  case (Cons c cs)
  show ?case
  proof (cases "CHR ''.'' \<in> set cs")
    case True
    then obtain w v vs where sp: "split cs (CHR ''.'') = w # v # vs"
      using split_has_sep by blast
    then show ?thesis
      using Cons.IH True by (simp add: lastSegment_Cons)
  next
    case False
    then have sp: "split cs (CHR ''.'') = [cs]"
      by (rule split_no_sep)
    then show ?thesis
      using False by (simp add: lastSegment_Cons)
  qed
qed

lemma lastSegment_no_dot_in: "CHR ''.'' \<notin> set (lastSegment s)"
  unfolding lastSegment_def using set_takeWhileD by fastforce

lemma takeWhile_dot:
  "CHR ''.'' \<notin> set a \<Longrightarrow> takeWhile (\<lambda>c. c \<noteq> CHR ''.'') (a @ ''.'' @ x) = a"
  by (induction a) auto

lemma dot_split_unique:
  assumes "a @ ''.'' @ x = b @ ''.'' @ y"
    and "CHR ''.'' \<notin> set a" and "CHR ''.'' \<notin> set b"
  shows "a = b"
  using assms takeWhile_dot by metis

lemma generateUniqueFileName_eq:
  "generateUniqueFileName nm T = numberToString T @ ''.'' @ lastSegment nm"
  by (simp add: generateUniqueFileName_def at_last_def templateString_def split_not_Nil last_split)

lemma numberToString_length:
  "length (numberToString n) = (if n < 10 then 1 else Suc (length (numberToString (n div 10))))"
  by (simp add: numberToString.simps[of n])

lemma digitChar_digit: "d < 10 \<Longrightarrow> digitChar d \<in> set ''0123456789''"
  unfolding digitChar_def by (rule nth_mem) simp

lemma numberToString_digits: "set (numberToString n) \<subseteq> set ''0123456789''"
proof (induction n rule: numberToString.induct)
  case (1 n)
  show ?case
  proof (cases "n < 10")
    case True
    then show ?thesis
      using digitChar_digit[of n] by (simp add: numberToString.simps[of n])
  next
    case False
    then show ?thesis
      using 1 digitChar_digit[of "n mod 10"] by (simp add: numberToString.simps[of n])
  qed
qed

lemma numberToString_four_digits:
  assumes "1000 \<le> y" and "y < 10000"
  shows "length (numberToString y) = 4"
proof -
  have a: "\<not> y < 10" and b: "\<not> y div 10 < 10" and c: "\<not> y div 10 div 10 < 10"
    and d: "y div 10 div 10 div 10 < 10"
    using assms by arith+
  show ?thesis
    using a b c d
    by (simp add: numberToString_length[of y] numberToString_length[of "y div 10"]
        numberToString_length[of "y div 10 div 10"]
        numberToString_length[of "y div 10 div 10 div 10"])
qed

lemma endsWith_normalizedPrefix: "endsWith (normalizedPrefix p) ''/''"
  by (simp add: normalizedPrefix_def endsWith_def suffix_def)

lemma normalizedPrefix_single:
  "\<not> endsWith p ''//'' \<Longrightarrow> \<not> endsWith (normalizedPrefix p) ''//''"
proof -
  assume a: "\<not> endsWith p ''//''"
  have "suffix (''/'' @ ''/'') (p @ ''/'') \<Longrightarrow> suffix ''/'' p"
    by (simp only: snoc_suffix_snoc)
  then show ?thesis
    using a by (auto simp: normalizedPrefix_def endsWith_def)
qed


section \<open>Keys, URLs and names\<close>

text \<open>
  \<open>replace\<close> at the first occurrence of the pattern, wherever it stands: when
  \<open>pat\<close> does not occur in \<open>a\<close> followed by all but the last character of \<open>pat\<close>, the
  occurrence behind \<open>a\<close> is the first one, and it is the one replaced. Every string in
  which the pattern occurs has such a first occurrence.
\<close>

lemma replace_first:
  assumes "pat \<noteq> []" and "\<not> sublist pat (a @ butlast pat)"
  shows "replace (a @ pat @ b) pat rep = a @ rep @ b"
  using assms(2)
proof (induction a)
  case Nil
  show ?case
    using replace_prefix[of pat b rep] by simp
next
  case (Cons x a)
  have ns: "\<not> sublist pat (a @ butlast pat)" and np: "\<not> prefix pat (x # a @ butlast pat)"
    using Cons.prems by (simp_all add: sublist_Cons_right)
  have "\<not> prefix pat (x # a @ pat @ b)"
  proof
    assume p: "prefix pat (x # a @ pat @ b)"
    have q: "prefix (x # a @ butlast pat) (x # a @ pat @ b)"
      using assms(1) by (metis Cons_prefix_Cons append_butlast_last_id append_assoc
          prefixI same_prefix_prefix)
    have "length pat \<le> length (x # a @ butlast pat)"
      using assms(1) by simp
    then have "prefix pat (x # a @ butlast pat)"
      using p q by (metis prefix_length_prefix)
    then show False
      using np by simp
  qed
  then show ?case
    using Cons.IH[OF ns] by simp
qed

lemma first_occurrence:
  assumes "pat \<noteq> []" and "sublist pat e"
  shows "\<exists>a b. e = a @ pat @ b \<and> \<not> sublist pat (a @ butlast pat)"
  using assms(2)
proof (induction e)
  case Nil
  then show ?case
    using assms(1) by simp
next
  case (Cons c cs)
  show ?case
  proof (cases "prefix pat (c # cs)")
    case True
    then obtain b where b: "c # cs = pat @ b"
      by (auto simp: prefix_def)
    have "length (butlast pat) < length pat"
      using assms(1) by (cases pat) simp_all
    then have "\<not> sublist pat (butlast pat)"
      using sublist_length_le[of pat "butlast pat"] by linarith
    then have "c # cs = [] @ pat @ b \<and> \<not> sublist pat ([] @ butlast pat)"
      using b by simp
    then show ?thesis
      by blast
  next
    case False
    then have "sublist pat cs"
      using Cons.prems by (simp add: sublist_Cons_right)
    then obtain a b where ab: "cs = a @ pat @ b" and ns: "\<not> sublist pat (a @ butlast pat)"
      using Cons.IH by blast
    have q: "prefix (c # a @ butlast pat) (c # cs)"
      unfolding ab using assms(1)
      by (metis Cons_prefix_Cons append_butlast_last_id append_assoc prefixI
          same_prefix_prefix)
    have "\<not> prefix pat (c # a @ butlast pat)"
      using False q prefix_order.trans by blast
    then have "c # cs = (c # a) @ pat @ b \<and> \<not> sublist pat ((c # a) @ butlast pat)"
      using ab ns by (simp add: sublist_Cons_right)
    then show ?thesis
      by blast
  qed
qed

text \<open>
  Claim C1, as the code has it. With a non-empty custom domain \<open>createUrl\<close> returns
  \<open><domain>/<key>\<close> and looks at neither bucket nor endpoint. With an empty custom
  domain it returns \<open>https://<bucket>.<e>/<key>\<close>, where \<open>e\<close> is the endpoint with its
  first occurrence of \<open>https://\<close> removed, wherever in the endpoint it stands: for an
  endpoint \<open>a https:// b\<close> in which \<open>https://\<close> does not begin inside \<open>a\<close>, \<open>e\<close> is
  \<open>a b\<close>. An endpoint in which \<open>https://\<close> does not occur (one with the scheme
  \<open>http://\<close>, or with no scheme) is used whole. Every endpoint is of one of the two
  kinds.
\<close>

theorem createUrl_amended:
  "(customDomain s \<noteq> [] \<longrightarrow> createUrl s key = customDomain s @ ''/'' @ key) \<and>
   (customDomain s = [] \<and> endpoint s = a @ ''https://'' @ b \<and>
    \<not> includes_str (a @ ''https:/'') ''https://'' \<longrightarrow>
      createUrl s key = ''https://'' @ bucketName s @ ''.'' @ a @ b @ ''/'' @ key) \<and>
   (customDomain s = [] \<and> \<not> includes_str (endpoint s) ''https://'' \<longrightarrow>
      createUrl s key = ''https://'' @ bucketName s @ ''.'' @ endpoint s @ ''/'' @ key) \<and>
   (includes_str (endpoint s) ''https://'' \<longrightarrow>
      (\<exists>a' b'. endpoint s = a' @ ''https://'' @ b' \<and>
               \<not> includes_str (a' @ ''https:/'') ''https://''))"
proof (intro conjI impI)
  show "createUrl s key = customDomain s @ ''/'' @ key" if "customDomain s \<noteq> []"
    using that by (simp add: createUrl_def)
  show "createUrl s key = ''https://'' @ bucketName s @ ''.'' @ a @ b @ ''/'' @ key"
    if h: "customDomain s = [] \<and> endpoint s = a @ ''https://'' @ b \<and>
           \<not> includes_str (a @ ''https:/'') ''https://''"
  proof -
    have "replace (a @ ''https://'' @ b) ''https://'' [] = a @ [] @ b"
      using h by (intro replace_first) (simp_all add: includes_str_def)
    then show ?thesis
      using h by (simp add: createUrl_def)
  qed
  show "createUrl s key = ''https://'' @ bucketName s @ ''.'' @ endpoint s @ ''/'' @ key"
    if "customDomain s = [] \<and> \<not> includes_str (endpoint s) ''https://''"
    using that replace_absent[of "''https://''" "endpoint s" "[]"]
    by (simp add: createUrl_def includes_str_def)
  show "\<exists>a' b'. endpoint s = a' @ ''https://'' @ b' \<and>
          \<not> includes_str (a' @ ''https:/'') ''https://''"
    if "includes_str (endpoint s) ''https://''"
    using that first_occurrence[of "''https://''" "endpoint s"]
    by (simp add: includes_str_def)
qed

text \<open>
  The cases at the settings of the repository's tests: a custom domain; the tests'
  endpoint, which starts with \<open>https://\<close>; an endpoint in which \<open>https://\<close> stands
  further in; and an endpoint without it.
\<close>

theorem createUrl_amended_witness:
  "customDomain (createValidSettings\<lparr>customDomain := ''https://images.hnagato.com''\<rparr>) \<noteq> [] \<and>
   createUrl (createValidSettings\<lparr>customDomain := ''https://images.hnagato.com''\<rparr>) ''images/test.png''
     = ''https://images.hnagato.com/images/test.png'' \<and>
   customDomain createValidSettings = [] \<and>
   endpoint createValidSettings = [] @ ''https://'' @ ''r2.cloudflarestorage.com'' \<and>
   \<not> includes_str ([] @ ''https:/'') ''https://'' \<and>
   includes_str (endpoint createValidSettings) ''https://'' \<and>
   createUrl createValidSettings ''images/test.png''
     = ''https://test-bucket.r2.cloudflarestorage.com/images/test.png'' \<and>
   endpoint (createValidSettings\<lparr>endpoint := ''http://a/https://b''\<rparr>)
     = ''http://a/'' @ ''https://'' @ ''b'' \<and>
   \<not> includes_str (''http://a/'' @ ''https:/'') ''https://'' \<and>
   createUrl (createValidSettings\<lparr>endpoint := ''http://a/https://b''\<rparr>) ''k''
     = ''https://test-bucket.http://a/b/k'' \<and>
   \<not> includes_str (endpoint (createValidSettings\<lparr>endpoint := ''localhost:9000''\<rparr>)) ''https://'' \<and>
   createUrl (createValidSettings\<lparr>endpoint := ''localhost:9000''\<rparr>) ''k''
     = ''https://test-bucket.localhost:9000/k''"
proof -
  note t1 = createUrl_amended[where s = "createValidSettings\<lparr>customDomain := ''https://images.hnagato.com''\<rparr>"
      and key = "''images/test.png''" and a = "[]" and b = "[]"]
  note t2 = createUrl_amended[where s = createValidSettings and key = "''images/test.png''"
      and a = "[]" and b = "''r2.cloudflarestorage.com''"]
  note t3 = createUrl_amended[where s = "createValidSettings\<lparr>endpoint := ''http://a/https://b''\<rparr>"
      and key = "''k''" and a = "''http://a/''" and b = "''b''"]
  note t4 = createUrl_amended[where s = "createValidSettings\<lparr>endpoint := ''localhost:9000''\<rparr>"
      and key = "''k''" and a = "[]" and b = "[]"]
  have n1: "\<not> includes_str ([] @ ''https:/'') ''https://''"
    by (simp add: includes_str_def sublist_code)
  have n3: "\<not> includes_str (''http://a/'' @ ''https:/'') ''https://''"
    by (simp add: includes_str_def sublist_code)
  have n4: "\<not> includes_str (endpoint (createValidSettings\<lparr>endpoint := ''localhost:9000''\<rparr>)) ''https://''"
    by (simp add: createValidSettings_def includes_str_def sublist_code)
  have i2: "includes_str (endpoint createValidSettings) ''https://''"
    by (simp add: createValidSettings_def includes_str_def sublist_code)
  have c1: "createUrl (createValidSettings\<lparr>customDomain := ''https://images.hnagato.com''\<rparr>) ''images/test.png''
     = ''https://images.hnagato.com/images/test.png''"
    using t1 by (simp add: createValidSettings_def)
  have c2: "createUrl createValidSettings ''images/test.png''
     = ''https://test-bucket.r2.cloudflarestorage.com/images/test.png''"
    using t2 n1 by (simp add: createValidSettings_def)
  have c3: "createUrl (createValidSettings\<lparr>endpoint := ''http://a/https://b''\<rparr>) ''k''
     = ''https://test-bucket.http://a/b/k''"
    using t3 n3 by (simp add: createValidSettings_def)
  have c4: "createUrl (createValidSettings\<lparr>endpoint := ''localhost:9000''\<rparr>) ''k''
     = ''https://test-bucket.localhost:9000/k''"
    using t4 n4 by (simp add: createValidSettings_def)
  show ?thesis
    using c1 c2 c3 c4 n1 n3 n4 i2 by (simp add: createValidSettings_def)
qed

text \<open>
  Claim C1 as stated fails for an \<open>http\<close> endpoint: the scheme is not stripped, so the
  URL is not \<open>https://<bucket>.<endpoint-without-scheme>/<key>\<close>.
\<close>

theorem createUrl_http_counterexample:
  "customDomain (createValidSettings\<lparr>endpoint := ''http://minio.local''\<rparr>) = [] \<and>
   createUrl (createValidSettings\<lparr>endpoint := ''http://minio.local''\<rparr>) ''f.png''
     = ''https://test-bucket.http://minio.local/f.png'' \<and>
   createUrl (createValidSettings\<lparr>endpoint := ''http://minio.local''\<rparr>) ''f.png''
     \<noteq> ''https://test-bucket.minio.local/f.png''"
  by (simp add: createValidSettings_def createUrl_def)

text \<open>
  Claim C3, as the code has it. The key is the normalized prefix, then (when the year
  flag is set) the decimal year and a separator, then the file name. The normalized
  prefix is the prefix itself when that ends in \<open>/\<close> and the prefix with one \<open>/\<close>
  appended otherwise; it always ends in \<open>/\<close>, and in exactly one unless the prefix given
  already ended in \<open>//\<close>. The year is written in decimal digits, four of them for the
  years 1000 to 9999. The two examples of the specification hold.
\<close>

theorem generateFileKey_amended:
  "generateFileKey p f useYear y =
     normalizedPrefix p @ (if useYear then numberToString y @ ''/'' else []) @ f \<and>
   normalizedPrefix p = (if endsWith p ''/'' then p else p @ ''/'') \<and>
   endsWith (normalizedPrefix p) ''/'' \<and>
   (\<not> endsWith p ''//'' \<longrightarrow> \<not> endsWith (normalizedPrefix p) ''//'') \<and>
   set (numberToString y) \<subseteq> set ''0123456789'' \<and>
   (1000 \<le> y \<and> y < 10000 \<longrightarrow> length (numberToString y) = 4) \<and>
   generateFileKey ''images'' ''f.png'' False y = ''images/f.png'' \<and>
   generateFileKey ''images/'' ''f.png'' True 2022 = ''images/2022/f.png''"
proof (intro conjI impI)
  show "generateFileKey p f useYear y =
     normalizedPrefix p @ (if useYear then numberToString y @ ''/'' else []) @ f"
    by (simp add: generateFileKey_def)
  show "normalizedPrefix p = (if endsWith p ''/'' then p else p @ ''/'')"
    by (simp add: normalizedPrefix_def)
  show "endsWith (normalizedPrefix p) ''/''"
    by (rule endsWith_normalizedPrefix)
  show "\<not> endsWith (normalizedPrefix p) ''//''" if "\<not> endsWith p ''//''"
    using that by (rule normalizedPrefix_single)
  show "set (numberToString y) \<subseteq> set ''0123456789''"
    by (rule numberToString_digits)
  show "length (numberToString y) = 4" if "1000 \<le> y \<and> y < 10000"
    using that numberToString_four_digits by blast
  show "generateFileKey ''images'' ''f.png'' False y = ''images/f.png''"
    by (simp add: generateFileKey_def normalizedPrefix_def endsWith_def suffix_to_prefix)
  show "generateFileKey ''images/'' ''f.png'' True 2022 = ''images/2022/f.png''"
    by (simp add: generateFileKey_def normalizedPrefix_def endsWith_def suffix_to_prefix
        numberToString.simps digitChar_def)
qed

text \<open>A prefix without separator and the year 2025, as in the repository's tests.\<close>

theorem generateFileKey_amended_witness:
  "\<not> endsWith ''uploads'' ''//'' \<and> (1000::nat) \<le> 2025 \<and> (2025::nat) < 10000 \<and>
   generateFileKey ''uploads'' ''test.png'' True 2025 = ''uploads/2025/test.png'' \<and>
   \<not> endsWith (normalizedPrefix ''uploads'') ''//'' \<and>
   length (numberToString 2025) = 4"
  using generateFileKey_amended[of "''uploads''" "''test.png''" True 2025]
  by (simp add: normalizedPrefix_def endsWith_def suffix_to_prefix numberToString.simps digitChar_def)

text \<open>
  Claim C3 as stated fails for a prefix that ends in two separators: it is left as it
  is, so the key is not the prefix brought to exactly one separator plus the file name.
\<close>

theorem generateFileKey_double_separator_counterexample:
  "generateFileKey ''images//'' ''f.png'' False 2022 = ''images//f.png'' \<and>
   generateFileKey ''images//'' ''f.png'' False 2022 \<noteq> ''images/f.png'' \<and>
   endsWith (normalizedPrefix ''images//'') ''//''"
  by (simp add: generateFileKey_def normalizedPrefix_def endsWith_def suffix_to_prefix)

text \<open>
  Claim C4. Called at epoch milliseconds \<open>T\<close>, \<open>generateUniqueFileName\<close> returns the
  decimal digits of \<open>T\<close>, a \<open>.\<close>, and the last segment of the original name (what
  follows its last \<open>.\<close>, or the whole name when it has none); two calls at distinct
  times give distinct names, whatever the two original names are.
\<close>

theorem generateUniqueFileName_spec:
  "generateUniqueFileName nm T = numberToString T @ ''.'' @ lastSegment nm \<and>
   digitsValue (numberToString T) = T \<and>
   (T1 \<noteq> T2 \<longrightarrow> generateUniqueFileName name1 T1 \<noteq> generateUniqueFileName name2 T2)"
proof (intro conjI impI)
  show "generateUniqueFileName nm T = numberToString T @ ''.'' @ lastSegment nm"
    by (rule generateUniqueFileName_eq)
  show "digitsValue (numberToString T) = T"
    by (rule digitsValue_numberToString)
  assume ne: "T1 \<noteq> T2"
  show "generateUniqueFileName name1 T1 \<noteq> generateUniqueFileName name2 T2"
  proof
    assume "generateUniqueFileName name1 T1 = generateUniqueFileName name2 T2"
    then have "numberToString T1 @ ''.'' @ lastSegment name1 =
               numberToString T2 @ ''.'' @ lastSegment name2"
      by (simp only: generateUniqueFileName_eq)
    then have "numberToString T1 = numberToString T2"
      by (rule dot_split_unique) (rule numberToString_no_dot)+
    then show False
      using ne numberToString_inj by blast
  qed
qed

text \<open>The names of the repository's tests, at two consecutive milliseconds.\<close>

theorem generateUniqueFileName_spec_witness:
  "generateUniqueFileName ''photo.jpg'' 1640995200000 = ''1640995200000.jpg'' \<and>
   generateUniqueFileName ''image'' 1640995200000 = ''1640995200000.image'' \<and>
   (1640995200000::nat) \<noteq> 1640995200001 \<and>
   generateUniqueFileName ''photo.jpg'' 1640995200000 \<noteq>
     generateUniqueFileName ''photo.jpg'' 1640995200001"
proof -
  note t = generateUniqueFileName_spec[of "''photo.jpg''" 1640995200000 1640995200000
      1640995200001 "''photo.jpg''" "''photo.jpg''"]
  have ne: "(1640995200000::nat) \<noteq> 1640995200001"
    by simp
  have d: "generateUniqueFileName ''photo.jpg'' 1640995200000 \<noteq>
     generateUniqueFileName ''photo.jpg'' 1640995200001"
    using t ne by blast
  have e1: "generateUniqueFileName ''photo.jpg'' 1640995200000 = ''1640995200000.jpg''"
    using t by (simp add: numberToString.simps digitChar_def lastSegment_def)
  have e2: "generateUniqueFileName ''image'' 1640995200000 = ''1640995200000.image''"
    by (simp add: generateUniqueFileName_eq numberToString.simps digitChar_def lastSegment_def)
  show ?thesis
    using ne d e1 e2 by blast
qed

section \<open>The upload: auxiliary facts\<close>

lemma missingFields_Nil:
  "missingFields s = [] \<longleftrightarrow>
     endpoint s \<noteq> [] \<and> accessKeyId s \<noteq> [] \<and> secretAccessKey s \<noteq> [] \<and> bucketName s \<noteq> []"
  by (auto simp: missingFields_def)

lemma validateSettings_eq:
  "validateSettings s =
     (if missingFields s = [] then Success s
      else Failure (''Missing required settings: '' @ join (missingFields s) '', ''))"
  by (simp add: validateSettings_def missingFields_def Let_def)

lemma uploadFile_eq:
  "uploadFile env s file fName =
     (if missingFields s \<noteq> []
      then (Inr (Failure (''Missing required settings: '' @ join (missingFields s) '', '')), [])
      else (case arrayBuffer file of
              Inl err \<Rightarrow>
                (case templateLiteral err of
                   Inr txt \<Rightarrow> (Inr (Failure (''Failed to read file: '' @ txt)), [])
                 | Inl thrown \<Rightarrow> (Inl thrown, []))
            | Inr bytes \<Rightarrow>
                (case send env s (putCommand env s file fName bytes) of
                   Some e \<Rightarrow>
                     (case getErrorMessage e of
                        Inr message \<Rightarrow>
                          (Inr (Failure message), [putCommand env s file fName bytes])
                      | Inl thrown \<Rightarrow> (Inl thrown, [putCommand env s file fName bytes]))
                 | None \<Rightarrow>
                     (Inr (Success \<lparr>url = createUrl s (Key (putCommand env s file fName bytes)),
                                    fileName = fName, timestamp = dateNow env\<rparr>),
                      [putCommand env s file fName bytes]))))"
  by (simp add: uploadFile_def validateSettings_eq fileToFileInfo_def putCommand_def Let_def
      split: sum.splits option.splits)

lemma missing_message_includes:
  fixes s :: R2UploaderSettings
  defines "msg \<equiv> ''Missing required settings: '' @ join (missingFields s) '', ''"
  shows "includes_str msg ''endpoint'' = (endpoint s = [])"
    and "includes_str msg ''accessKeyId'' = (accessKeyId s = [])"
    and "includes_str msg ''secretAccessKey'' = (secretAccessKey s = [])"
    and "includes_str msg ''bucketName'' = (bucketName s = [])"
  unfolding msg_def
  by (cases "endpoint s = []"; cases "accessKeyId s = []"; cases "secretAccessKey s = []";
      cases "bucketName s = []";
      simp add: missingFields_def includes_str_def sublist_code)+


lemma getErrorMessage_eq:
  "getErrorMessage e =
     (if matchesCorsSignature e then Inr corsErrorMessage
      else (case templateLiteral e of
              Inr txt \<Rightarrow> Inr (''Upload failed: '' @ txt)
            | Inl thrown \<Rightarrow> Inl thrown))"
  by (cases e) (simp_all add: getErrorMessage_def)

lemma includes_str_append_right: "includes_str (a @ b) b"
  by (simp add: includes_str_def)

lemma promiseAll_fulfilled: "promiseAll (map Inr vs) = Inr vs"
  by (induction vs) simp_all

lemma promiseAll_Inr: "promiseAll ps = Inr vs \<longleftrightarrow> ps = map Inr vs"
proof
  show "promiseAll ps = Inr vs \<Longrightarrow> ps = map Inr vs"
  proof (induction ps arbitrary: vs)
    case Nil
    then show ?case by auto
  next
    case (Cons p ps)
    show ?case
    proof (cases p)
      case (Inl e)
      then show ?thesis using Cons.prems by simp
    next
      case (Inr v)
      then obtain ws where w: "promiseAll ps = Inr ws" and v: "vs = v # ws"
        using Cons.prems by (auto split: sum.splits)
      then show ?thesis
        using Cons.IH[OF w] Inr by simp
    qed
  qed
  show "ps = map Inr vs \<Longrightarrow> promiseAll ps = Inr vs"
    by (simp add: promiseAll_fulfilled)
qed

lemma promiseAll_Inl: "(\<exists>e. promiseAll ps = Inl e) \<longleftrightarrow> (\<exists>e. Inl e \<in> set ps)"
proof (induction ps)
  case Nil
  then show ?case by simp
next
  case (Cons p ps)
  then show ?case
    by (cases p) (auto split: sum.splits)
qed

lemma processFiles_fst:
  "fst (processFiles benv files s) =
     promiseAll (map (\<lambda>(i, file). fst (uploadFile (uploadEnv benv i) s file
                        (generateUniqueFileName (f_name file) (nameClock benv i))))
                   (enumerate 0 files))"
  by (simp add: processFiles_def Let_def comp_def case_prod_unfold)

lemma processFiles_snd:
  "snd (processFiles benv files s) =
     concat (map (\<lambda>(i, file). snd (uploadFile (uploadEnv benv i) s file
                        (generateUniqueFileName (f_name file) (nameClock benv i))))
                   (enumerate 0 files))"
  by (simp add: processFiles_def Let_def comp_def case_prod_unfold)

lemma processFiles_length:
  "fst (processFiles benv files s) = Inr results \<Longrightarrow> length results = length files"
  unfolding processFiles_fst promiseAll_Inr
  by (drule map_eq_imp_length_eq) simp

lemma processFiles_nth:
  assumes "fst (processFiles benv files s) = Inr results" and "i < length files"
  shows "fst (uploadFile (uploadEnv benv i) s (files ! i)
                (generateUniqueFileName (f_name (files ! i)) (nameClock benv i)))
           = Inr (results ! i)"
proof -
  have l: "length results = length files"
    using assms(1) by (rule processFiles_length)
  have "map (\<lambda>(i, file). fst (uploadFile (uploadEnv benv i) s file
                        (generateUniqueFileName (f_name file) (nameClock benv i))))
                   (enumerate 0 files) ! i = map Inr results ! i"
    using assms(1) unfolding processFiles_fst promiseAll_Inr by simp
  then show ?thesis
    using assms(2) l by (simp add: nth_enumerate_eq)
qed

section \<open>Settings validation\<close>

text \<open>
  Claim C2. When any of the four required fields is the empty string, \<open>uploadFile\<close>
  returns a failure and hands no command to the transport, whatever the file and the
  environment are. Its message is \<open>Missing required settings: \<close> followed by the names
  of the empty fields, joined by \<open>, \<close>; the name of each of the four fields occurs in
  the message exactly when that field is empty.
\<close>

theorem uploadFile_missing_settings:
  assumes "endpoint s = [] \<or> accessKeyId s = [] \<or> secretAccessKey s = [] \<or> bucketName s = []"
  shows "uploadFile env s file fName =
           (Inr (Failure (''Missing required settings: '' @ join (missingFields s) '', '')), []) \<and>
         includes_str (error (projr (fst (uploadFile env s file fName)))) ''endpoint''
           = (endpoint s = []) \<and>
         includes_str (error (projr (fst (uploadFile env s file fName)))) ''accessKeyId''
           = (accessKeyId s = []) \<and>
         includes_str (error (projr (fst (uploadFile env s file fName)))) ''secretAccessKey''
           = (secretAccessKey s = []) \<and>
         includes_str (error (projr (fst (uploadFile env s file fName)))) ''bucketName''
           = (bucketName s = [])"
proof -
  have m: "missingFields s \<noteq> []"
    using assms by (simp add: missingFields_Nil)
  then have u: "uploadFile env s file fName =
           (Inr (Failure (''Missing required settings: '' @ join (missingFields s) '', '')), [])"
    by (simp add: uploadFile_eq)
  show ?thesis
    unfolding u fst_conv sum.sel Result.sel
    using missing_message_includes[of s] by blast
qed

text \<open>The settings of the repository's test with three fields missing.\<close>

theorem uploadFile_missing_settings_witness:
  "(endpoint (createValidSettings\<lparr>endpoint := [], accessKeyId := [], bucketName := []\<rparr>) = [] \<or>
    accessKeyId (createValidSettings\<lparr>endpoint := [], accessKeyId := [], bucketName := []\<rparr>) = [] \<or>
    secretAccessKey (createValidSettings\<lparr>endpoint := [], accessKeyId := [], bucketName := []\<rparr>) = [] \<or>
    bucketName (createValidSettings\<lparr>endpoint := [], accessKeyId := [], bucketName := []\<rparr>) = []) \<and>
   uploadFile resolvingEnv (createValidSettings\<lparr>endpoint := [], accessKeyId := [], bucketName := []\<rparr>)
     (createMockFile ''test.png'' ''image/png'') ''test.png'' =
     (Inr (Failure ''Missing required settings: endpoint, accessKeyId, bucketName''), []) \<and>
   \<not> includes_str ''Missing required settings: endpoint, accessKeyId, bucketName''
        ''secretAccessKey''"
proof -
  let ?s = "createValidSettings\<lparr>endpoint := [], accessKeyId := [], bucketName := []\<rparr>"
  have h: "endpoint ?s = [] \<or> accessKeyId ?s = [] \<or> secretAccessKey ?s = [] \<or> bucketName ?s = []"
    by simp
  have m: "missingFields ?s = [''endpoint'', ''accessKeyId'', ''bucketName'']"
    by (simp add: missingFields_def createValidSettings_def)
  note t = uploadFile_missing_settings[OF h, of resolvingEnv
      "createMockFile ''test.png'' ''image/png''" "''test.png''", THEN conjunct1]
  have u: "uploadFile resolvingEnv ?s (createMockFile ''test.png'' ''image/png'') ''test.png'' =
     (Inr (Failure ''Missing required settings: endpoint, accessKeyId, bucketName''), [])"
    using t by (simp add: m)
  have n: "\<not> includes_str ''Missing required settings: endpoint, accessKeyId, bucketName''
        ''secretAccessKey''"
    by (simp add: includes_str_def sublist_code)
  show ?thesis
    using h u n by blast
qed

section \<open>Failure messages of the transport\<close>

text \<open>
  What \<open>getErrorMessage\<close> does with a thrown value. A value that matches the
  fetch-failure signature gets the dedicated message, which names the CORS policy, its
  \<open>AllowedOrigins\<close> and the origin to add. Any other value goes through the template
  literal: when it has a string conversion, the message is \<open>Upload failed: \<close> followed
  by that string; when it has none, the template literal throws and so does
  \<open>getErrorMessage\<close>. \<open>uploadFile\<close> hands on what \<open>getErrorMessage\<close> gave or threw,
  with the command it had sent.
\<close>

lemma getErrorMessage_classification:
  "(matchesCorsSignature e \<longrightarrow> getErrorMessage e = Inr corsErrorMessage) \<and>
   (\<not> matchesCorsSignature e \<and> templateLiteral e = Inr txt \<longrightarrow>
      getErrorMessage e = Inr (''Upload failed: '' @ txt) \<and>
      includes_str (''Upload failed: '' @ txt) txt) \<and>
   (\<not> matchesCorsSignature e \<and> templateLiteral e = Inl thrown \<longrightarrow>
      getErrorMessage e = Inl thrown) \<and>
   includes_str corsErrorMessage ''CORS policy'' \<and>
   includes_str corsErrorMessage ''AllowedOrigins'' \<and>
   includes_str corsErrorMessage ''app://obsidian.md''"
proof (intro conjI impI)
  show "getErrorMessage e = Inr corsErrorMessage" if "matchesCorsSignature e"
    using that by (simp add: getErrorMessage_eq)
  show "getErrorMessage e = Inr (''Upload failed: '' @ txt)"
    if "\<not> matchesCorsSignature e \<and> templateLiteral e = Inr txt"
    using that by (simp add: getErrorMessage_eq)
  show "includes_str (''Upload failed: '' @ txt) txt"
    by (rule includes_str_append_right)
  show "getErrorMessage e = Inl thrown"
    if "\<not> matchesCorsSignature e \<and> templateLiteral e = Inl thrown"
    using that by (simp add: getErrorMessage_eq)
  show "includes_str corsErrorMessage ''CORS policy''"
    by (simp add: corsErrorMessage_def includes_str_def sublist_code)
  show "includes_str corsErrorMessage ''AllowedOrigins''"
    by (simp add: corsErrorMessage_def includes_str_def sublist_code)
  show "includes_str corsErrorMessage ''app://obsidian.md''"
    by (simp add: corsErrorMessage_def includes_str_def sublist_code)
qed

lemma uploadFile_send_throws:
  assumes "missingFields s = []" and "arrayBuffer file = Inr bytes"
    and "send env s (putCommand env s file fName bytes) = Some e"
  shows "uploadFile env s file fName =
     (case getErrorMessage e of
        Inr message \<Rightarrow> (Inr (Failure message), [putCommand env s file fName bytes])
      | Inl thrown \<Rightarrow> (Inl thrown, [putCommand env s file fName bytes]))"
  using assms by (simp add: uploadFile_eq)

lemma templateLiteral_throws: "(\<exists>thrown. templateLiteral e = Inl thrown) \<longleftrightarrow> e = SymbolValue"
  by (cases e) simp_all

text \<open>
  Thrown values with a string conversion: \<open>new TypeError('Failed to fetch')\<close> and
  \<open>new Error('Network error')\<close> of the repository's tests, and a string.
\<close>

lemma getErrorMessage_examples:
  "getErrorMessage (ErrorObject True ''TypeError'' ''Failed to fetch'') = Inr corsErrorMessage \<and>
   getErrorMessage (ErrorObject False ''Error'' ''Network error'')
     = Inr ''Upload failed: Error: Network error'' \<and>
   getErrorMessage (NonError ''timeout'') = Inr ''Upload failed: timeout'' \<and>
   fst (uploadFile (rejectingEnv (ErrorObject False ''Error'' ''Network error''))
          createValidSettings (createMockFile ''test.png'' ''image/png'') ''test.png'')
     = Inr (Failure ''Upload failed: Error: Network error'')"
  by (simp add: getErrorMessage_def includes_str_def sublist_code uploadFile_eq
      missingFields_def createValidSettings_def createMockFile_def rejectingEnv_def)

text \<open>
  Claim C7 at a thrown value without string conversion. The transport throws a symbol.
  It does not match the fetch-failure signature, so by the claim the failure message
  is \<open>Upload failed: \<close> followed by the cause. In the code the template literal of
  \<open>getErrorMessage\<close> throws the \<open>TypeError\<close> of the conversion: \<open>getErrorMessage\<close>
  gives no message, and \<open>uploadFile\<close>, which calls it in its \<open>catch\<close> clause, gives
  no failure result: its promise is rejected, after the command was sent.
\<close>

theorem getErrorMessage_symbol_throws:
  "\<not> matchesCorsSignature SymbolValue \<and>
   getErrorMessage SymbolValue = Inl symbolConversionError \<and>
   uploadFile (rejectingEnv SymbolValue) createValidSettings
       (createMockFile ''test.png'' ''image/png'') ''test.png'' =
     (Inl symbolConversionError,
      [\<lparr>Bucket = ''test-bucket'', Key = ''images/test.png'', Body = [116, 101, 115, 116],
        ContentType = ''image/png''\<rparr>])"
  by (simp add: getErrorMessage_def uploadFile_eq missingFields_def createValidSettings_def
      createMockFile_def rejectingEnv_def putCommand_def generateFileKey_def
      normalizedPrefix_def endsWith_def suffix_to_prefix)

section \<open>Failures and the boundary of the upload\<close>

text \<open>
  The paths of \<open>uploadFile\<close>. Incomplete settings give a failure and no command. A
  file that cannot be read gives a failure with the string conversion of the cause,
  and a send that throws gives a failure with the message of \<open>getErrorMessage\<close>, when
  the thrown value has a string conversion or, for the send, matches the fetch-failure
  signature. A send that resolves gives a success. The promise is rejected on the
  remaining paths, and only there: the file read or the send throws a value without
  string conversion.
\<close>

lemma uploadFile_paths:
  "(missingFields s \<noteq> [] \<longrightarrow>
      uploadFile env s file fName =
        (Inr (Failure (''Missing required settings: '' @ join (missingFields s) '', '')), [])) \<and>
   (missingFields s = [] \<and> arrayBuffer file = Inl err \<and> templateLiteral err = Inr txt \<longrightarrow>
      uploadFile env s file fName = (Inr (Failure (''Failed to read file: '' @ txt)), [])) \<and>
   (missingFields s = [] \<and> arrayBuffer file = Inr bytes \<and>
    send env s (putCommand env s file fName bytes) = Some e \<and>
    getErrorMessage e = Inr message \<longrightarrow>
      uploadFile env s file fName =
        (Inr (Failure message), [putCommand env s file fName bytes])) \<and>
   (missingFields s = [] \<and> arrayBuffer file = Inr bytes \<and>
    send env s (putCommand env s file fName bytes) = None \<longrightarrow>
      uploadFile env s file fName =
        (Inr (Success \<lparr>url = createUrl s (Key (putCommand env s file fName bytes)),
                       fileName = fName, timestamp = dateNow env\<rparr>),
         [putCommand env s file fName bytes]))"
  by (simp add: uploadFile_eq)

lemma uploadFile_rejected_iff:
  "isRejected (fst (uploadFile env s file fName)) \<longleftrightarrow>
     missingFields s = [] \<and>
     (arrayBuffer file = Inl SymbolValue \<or>
      (\<exists>bytes. arrayBuffer file = Inr bytes \<and>
         send env s (putCommand env s file fName bytes) = Some SymbolValue))"
proof -
  have t: "(\<exists>thrown. templateLiteral e = Inl thrown) \<longleftrightarrow> e = SymbolValue" for e
    by (cases e) simp_all
  have g: "(\<exists>thrown. getErrorMessage e = Inl thrown) \<longleftrightarrow> e = SymbolValue" for e
    by (cases e) (simp_all add: getErrorMessage_def)
  have t': "isRejected (fst (case templateLiteral e of
                Inr txt \<Rightarrow> (Inr (Failure (''Failed to read file: '' @ txt)), [])
              | Inl thrown \<Rightarrow> (Inl thrown, []))) \<longleftrightarrow> e = SymbolValue" for e
    by (cases e) (simp_all add: isRejected_def)
  have g': "isRejected (fst (case getErrorMessage e of
                Inr message \<Rightarrow> (Inr (Failure message), [c])
              | Inl thrown \<Rightarrow> (Inl thrown, [c]))) \<longleftrightarrow> e = SymbolValue" for e c
    by (cases e) (simp_all add: isRejected_def getErrorMessage_def)
  show ?thesis
  proof (cases "missingFields s = []")
    case False
    then show ?thesis
      by (simp add: uploadFile_eq isRejected_def)
  next
    case True
    show ?thesis
    proof (cases "arrayBuffer file")
      case (Inl err)
      then show ?thesis
        using True t'[of err] by (simp add: uploadFile_eq)
    next
      case (Inr bytes)
      show ?thesis
      proof (cases "send env s (putCommand env s file fName bytes)")
        case None
        then show ?thesis
          using True Inr by (simp add: uploadFile_eq isRejected_def)
      next
        case (Some e)
        then show ?thesis
          using True Inr g'[of _ e] by (simp add: uploadFile_eq)
      qed
    qed
  qed
qed

text \<open>
  The batch: every upload is started and sends its command whatever becomes of the
  others, and the batch is rejected exactly when one of its uploads is. When it is
  fulfilled, there is one result per file, in the order of the files, and the result
  at each index is what the upload of that file gives on its own.
\<close>

lemma processFiles_rejected_iff:
  "isRejected (fst (processFiles benv files s)) \<longleftrightarrow>
     (\<exists>i < length files.
        isRejected (fst (uploadFile (uploadEnv benv i) s (files ! i)
                           (generateUniqueFileName (f_name (files ! i)) (nameClock benv i)))))"
proof -
  let ?u = "\<lambda>(i, file). fst (uploadFile (uploadEnv benv i) s file
                        (generateUniqueFileName (f_name file) (nameClock benv i)))"
  have a: "isRejected (fst (processFiles benv files s)) \<longleftrightarrow>
        (\<exists>e. promiseAll (map ?u (enumerate 0 files)) = Inl e)"
    unfolding processFiles_fst isRejected_def by (simp split: sum.splits)
  have b: "(\<exists>e. Inl e \<in> set (map ?u (enumerate 0 files))) \<longleftrightarrow>
        (\<exists>i < length files. \<exists>e. map ?u (enumerate 0 files) ! i = Inl e)"
    unfolding in_set_conv_nth by (simp only: length_map length_enumerate) blast
  have c: "i < length files \<Longrightarrow> map ?u (enumerate 0 files) ! i =
       fst (uploadFile (uploadEnv benv i) s (files ! i)
                           (generateUniqueFileName (f_name (files ! i)) (nameClock benv i)))" for i
    by (simp add: nth_enumerate_eq)
  have d: "(\<exists>e. p = Inl e) \<longleftrightarrow> isRejected p" for p :: "js_thrown + UploadResult Result"
    by (cases p) (simp_all add: isRejected_def)
  show ?thesis
    unfolding a promiseAll_Inl b d using c by (simp cong: conj_cong)
qed

text \<open>
  Claim C9 at a thrown value without string conversion. With the settings of the
  tests, a file whose read rejects with a symbol makes the promise of \<open>uploadFile\<close>
  rejected: the template literal in the \<open>catch\<close> clause of \<open>fileToFileInfo\<close> throws,
  and nothing catches that. In the batch of the tests' two files the send of the
  second file throws a symbol. The first upload succeeds on its own and both commands
  are sent, but the promise of the second upload is rejected, from the \<open>catch\<close>
  clause of \<open>uploadFile\<close>, and with it the \<open>Promise.all\<close> of the batch: the result
  of the first file is dropped, \<open>processImages\<close> inserts no link and shows no notice
  for either file, and the handler shows the single notice of its own \<open>catch\<close> clause.
\<close>

theorem uploadFile_symbol_rejects_batch:
  "uploadFile resolvingEnv createValidSettings
       ((createMockFile ''test.png'' ''image/png'')\<lparr>arrayBuffer := Inl SymbolValue\<rparr>)
       ''test.png'' =
     (Inl symbolConversionError, []) \<and>
   uploadFile (uploadEnv symbolEnv 0) createValidSettings (twoFiles ! 0) ''1640995200000.png'' =
     (Inr (Success \<lparr>url = ''https://test-bucket.r2.cloudflarestorage.com/images/1640995200000.png'',
                    fileName = ''1640995200000.png'', timestamp = 1640995200000\<rparr>),
      [\<lparr>Bucket = ''test-bucket'', Key = ''images/1640995200000.png'',
        Body = [116, 101, 115, 116], ContentType = ''image/png''\<rparr>]) \<and>
   uploadFile (uploadEnv symbolEnv 1) createValidSettings (twoFiles ! 1) ''1640995200001.jpg'' =
     (Inl symbolConversionError,
      [\<lparr>Bucket = ''test-bucket'', Key = ''images/1640995200001.jpg'',
        Body = [116, 101, 115, 116], ContentType = ''image/jpeg''\<rparr>]) \<and>
   processFiles symbolEnv twoFiles createValidSettings =
     (Inl symbolConversionError,
      [\<lparr>Bucket = ''test-bucket'', Key = ''images/1640995200000.png'',
        Body = [116, 101, 115, 116], ContentType = ''image/png''\<rparr>,
       \<lparr>Bucket = ''test-bucket'', Key = ''images/1640995200001.jpg'',
        Body = [116, 101, 115, 116], ContentType = ''image/jpeg''\<rparr>]) \<and>
   processImages (replaceDisallowed pathIllegal) symbolEnv twoFiles mockEditor
       createValidSettings =
     \<lparr>notices = [],
      network =
        [\<lparr>Bucket = ''test-bucket'', Key = ''images/1640995200000.png'',
          Body = [116, 101, 115, 116], ContentType = ''image/png''\<rparr>,
         \<lparr>Bucket = ''test-bucket'', Key = ''images/1640995200001.jpg'',
          Body = [116, 101, 115, 116], ContentType = ''image/jpeg''\<rparr>],
      edits = [], defaultPrevented = False, rejected = Some symbolConversionError\<rparr> \<and>
   handleDrop (replaceDisallowed pathIllegal) symbolEnv twoFiles (mockApp (Some ''notes/a.md''))
       createValidSettings =
     \<lparr>notices =
        [(''Plugin error: TypeError: Cannot convert a Symbol value to a string'', 4000)],
      network =
        [\<lparr>Bucket = ''test-bucket'', Key = ''images/1640995200000.png'',
          Body = [116, 101, 115, 116], ContentType = ''image/png''\<rparr>,
         \<lparr>Bucket = ''test-bucket'', Key = ''images/1640995200001.jpg'',
          Body = [116, 101, 115, 116], ContentType = ''image/jpeg''\<rparr>],
      edits = [], defaultPrevented = True, rejected = None\<rparr>"
proof -
  let ?s = createValidSettings
  let ?c0 = "\<lparr>Bucket = ''test-bucket'', Key = ''images/1640995200000.png'',
        Body = [116, 101, 115, 116], ContentType = ''image/png''\<rparr>"
  let ?c1 = "\<lparr>Bucket = ''test-bucket'', Key = ''images/1640995200001.jpg'',
        Body = [116, 101, 115, 116], ContentType = ''image/jpeg''\<rparr>"
  note defs = twoFiles_def symbolEnv_def createMockFile_def rejectingEnv_def resolvingEnv_def
    missingFields_def createValidSettings_def putCommand_def generateFileKey_def
    normalizedPrefix_def endsWith_def suffix_to_prefix createUrl_def
  have r: "uploadFile resolvingEnv ?s
       ((createMockFile ''test.png'' ''image/png'')\<lparr>arrayBuffer := Inl SymbolValue\<rparr>)
       ''test.png'' = (Inl symbolConversionError, [])"
    by (simp add: uploadFile_eq defs)
  have u0: "uploadFile (uploadEnv symbolEnv 0) ?s (twoFiles ! 0) ''1640995200000.png'' =
     (Inr (Success \<lparr>url = ''https://test-bucket.r2.cloudflarestorage.com/images/1640995200000.png'',
                    fileName = ''1640995200000.png'', timestamp = 1640995200000\<rparr>), [?c0])"
    by (simp add: uploadFile_eq defs)
  have u1: "uploadFile (uploadEnv symbolEnv 1) ?s (twoFiles ! 1) ''1640995200001.jpg'' =
     (Inl symbolConversionError, [?c1])"
    by (simp add: uploadFile_eq defs getErrorMessage_def)
  have n0: "generateUniqueFileName (f_name (twoFiles ! 0)) (nameClock symbolEnv 0)
        = ''1640995200000.png''"
    and n1: "generateUniqueFileName (f_name (twoFiles ! 1)) (nameClock symbolEnv 1)
        = ''1640995200001.jpg''"
    by (simp_all add: twoFiles_def symbolEnv_def createMockFile_def generateUniqueFileName_eq
        numberToString.simps digitChar_def lastSegment_def)
  have two: "twoFiles = [twoFiles ! 0, twoFiles ! 1]"
    by (simp add: twoFiles_def)
  have e: "enumerate 0 [twoFiles ! 0, twoFiles ! 1] = [(0, twoFiles ! 0), (1, twoFiles ! 1)]"
    by simp
  have "processFiles symbolEnv [twoFiles ! 0, twoFiles ! 1] ?s =
     (Inl symbolConversionError, [?c0, ?c1])"
    unfolding processFiles_def e
    by (simp only: list.map prod.case n0 n1 u0 u1 Let_def fst_conv snd_conv promiseAll.simps
        sum.case concat.simps append_Cons append_Nil)
  then have pf: "processFiles symbolEnv twoFiles ?s = (Inl symbolConversionError, [?c0, ?c1])"
    using two by simp
  have pim: "processImages (replaceDisallowed pathIllegal) symbolEnv twoFiles mockEditor ?s =
     \<lparr>notices = [], network = [?c0, ?c1], edits = [], defaultPrevented = False,
      rejected = Some symbolConversionError\<rparr>"
    unfolding processImages_def pf by simp
  have v: "validateConditions (mockApp (Some ''notes/a.md'')) ?s = (True, [])"
    by (simp add: validateConditions_def createValidSettings_def)
  have x: "extractDropFiles twoFiles = twoFiles"
    by (simp add: extractDropFiles_def twoFiles_def createMockFile_def startsWith_def)
  have l: "twoFiles \<noteq> []"
    by (simp add: twoFiles_def)
  have hd: "handleDrop (replaceDisallowed pathIllegal) symbolEnv twoFiles
       (mockApp (Some ''notes/a.md'')) ?s =
     \<lparr>notices =
        [(''Plugin error: TypeError: Cannot convert a Symbol value to a string'', 4000)],
      network = [?c0, ?c1], edits = [], defaultPrevented = True, rejected = None\<rparr>"
    unfolding handleDrop_def v x
    by (simp add: mockApp_def l pim handlerCatch_def symbolConversionError_def showNotice_def)
  show ?thesis
    using r u0 u1 pf pim hd by blast
qed

section \<open>Folder gating\<close>

lemma isInEnabledFolder_eq:
  "filePath \<noteq> [] \<Longrightarrow> folders \<noteq> [] \<Longrightarrow>
   isInEnabledFolder filePath folders = folderMatch filePath folders"
  by (simp add: isInEnabledFolder_def folderMatch_def list_ex_iff)

lemma isInEnabledFolder_empty_path: "\<not> isInEnabledFolder [] folders"
  by (simp add: isInEnabledFolder_def)

lemma folder_notice:
  "enabledFolders s \<noteq> [] \<Longrightarrow>
   \<not> isInEnabledFolder (getCurrentFilePath app) (enabledFolders s) \<Longrightarrow>
   validateConditions app s = (False, [(''Current folder is not enabled for uploads'', 4000)])"
  by (simp add: validateConditions_def showNotice_def)



lemma handlers_blocked_network:
  assumes "fst (validateConditions app s) = False"
  shows "network (handleDrop sanitize benv dropped app s) = []"
    and "network (handlePaste sanitize benv items editor app s) = []"
    and "edits (handleDrop sanitize benv dropped app s) = []"
    and "edits (handlePaste sanitize benv items editor app s) = []"
  using assms
  by (cases "validateConditions app s";
      simp add: handleDrop_def handlePaste_def noEffects_def split: option.splits)+





section \<open>The root entry of the allow-list\<close>

lemma trim_Nil: "trim [] = []"
  by (simp add: trim_def)

lemma addFolder_keeps_entries_non_empty:
  "[] \<notin> set (enabledFolders s) \<Longrightarrow> [] \<notin> set (enabledFolders (addFolder v s))"
  by (simp add: addFolder_def)

text \<open>
  Claim C10, as the code has it. The folder chooser hands on the vault root \<open>/\<close> as
  the empty string, and the Browse button puts that value into the text input. The Add
  button ignores an input that is empty after trimming, so choosing the root and
  pressing Add stores nothing: the settings stay as they are, and an allow-list
  without the empty string never gets it from the Add button, whatever the input is.
  If the allow-list nevertheless holds the empty string (settings are read from the
  stored data as they are), that entry matches no path that is non-empty and does not
  begin with \<open>/\<close>: neither \<open>path.startsWith('' + '/')\<close> nor \<open>path === ''\<close> holds, so
  the predicate is decided by the other entries alone. An allow-list that consists of
  that entry only blocks every such path, and the handlers then show the folder notice
  and send nothing, whereas the empty allow-list lets every such path pass.
\<close>

theorem root_entry_amended:
  "browseChoose ''/'' = [] \<and>
   addFolder (browseChoose ''/'') s = s \<and>
   (trim v = [] \<longrightarrow> addFolder v s = s) \<and>
   ([] \<notin> set (enabledFolders s) \<longrightarrow> [] \<notin> set (enabledFolders (addFolder v s))) \<and>
   (filePath \<noteq> [] \<and> \<not> startsWith filePath ''/'' \<longrightarrow>
      \<not> startsWith filePath ([] @ ''/'') \<and> filePath \<noteq> [] \<and>
      \<not> isInEnabledFolder filePath [[]] \<and>
      isInEnabledFolder filePath [] \<and>
      ([] \<in> set folders \<longrightarrow>
         isInEnabledFolder filePath folders = folderMatch filePath (removeAll [] folders))) \<and>
   (activeFilePath app = Some filePath \<and> filePath \<noteq> [] \<and> \<not> startsWith filePath ''/'' \<and>
    enabledFolders s = [[]] \<longrightarrow>
      validateConditions app s =
        (False, [(''Current folder is not enabled for uploads'', 4000)]) \<and>
      network (handleDrop sanitize benv dropped app s) = [] \<and>
      network (handlePaste sanitize benv items editor app s) = [])"
proof (intro conjI impI)
  show "browseChoose ''/'' = []"
    by (simp add: browseChoose_def onChooseItem_def)
  show "addFolder (browseChoose ''/'') s = s"
    by (simp add: browseChoose_def onChooseItem_def addFolder_def trim_Nil)
  show "addFolder v s = s" if "trim v = []"
    using that by (simp add: addFolder_def)
  show "[] \<notin> set (enabledFolders (addFolder v s))" if "[] \<notin> set (enabledFolders s)"
    using that by (rule addFolder_keeps_entries_non_empty)
next
  assume a: "filePath \<noteq> [] \<and> \<not> startsWith filePath ''/''"
  then show "\<not> startsWith filePath ([] @ ''/'')" and "filePath \<noteq> []"
    by simp_all
  show "\<not> isInEnabledFolder filePath [[]]"
    using a by (simp add: isInEnabledFolder_def)
  show "isInEnabledFolder filePath []"
    using a by (simp add: isInEnabledFolder_def)
  show "isInEnabledFolder filePath folders = folderMatch filePath (removeAll [] folders)"
    if "[] \<in> set folders"
  proof -
    have "folders \<noteq> []"
      using that by auto
    then have "isInEnabledFolder filePath folders = folderMatch filePath folders"
      using a by (simp add: isInEnabledFolder_eq)
    also have "\<dots> = folderMatch filePath (removeAll [] folders)"
      using a by (auto simp: folderMatch_def)
    finally show ?thesis .
  qed
next
  assume b: "activeFilePath app = Some filePath \<and> filePath \<noteq> [] \<and>
    \<not> startsWith filePath ''/'' \<and> enabledFolders s = [[]]"
  then have n: "enabledFolders s \<noteq> []"
    and p: "\<not> isInEnabledFolder (getCurrentFilePath app) (enabledFolders s)"
    by (simp_all add: getCurrentFilePath_def isInEnabledFolder_def)
  show v: "validateConditions app s =
        (False, [(''Current folder is not enabled for uploads'', 4000)])"
    using n p by (rule folder_notice)
  then have f: "fst (validateConditions app s) = False"
    by simp
  show "network (handleDrop sanitize benv dropped app s) = []"
    and "network (handlePaste sanitize benv items editor app s) = []"
    using f by (rule handlers_blocked_network)+
qed

text \<open>
  The root chosen and added to the list \<open>["docs"]\<close>, two spaces and a folder with a
  space behind it typed and added to that list, and a note in a folder of the vault
  with the empty string alone in the list and beside \<open>docs\<close>.
\<close>

theorem root_entry_amended_witness:
  "addFolder (browseChoose ''/'') (createValidSettings\<lparr>enabledFolders := [''docs'']\<rparr>)
     = createValidSettings\<lparr>enabledFolders := [''docs'']\<rparr> \<and>
   trim ''  '' = [] \<and>
   addFolder ''  '' (createValidSettings\<lparr>enabledFolders := [''docs'']\<rparr>)
     = createValidSettings\<lparr>enabledFolders := [''docs'']\<rparr> \<and>
   [] \<notin> set (enabledFolders (createValidSettings\<lparr>enabledFolders := [''docs'']\<rparr>)) \<and>
   enabledFolders (addFolder ''notes '' (createValidSettings\<lparr>enabledFolders := [''docs'']\<rparr>))
     = [''docs'', ''notes''] \<and>
   [] \<notin> set (enabledFolders
                (addFolder ''notes '' (createValidSettings\<lparr>enabledFolders := [''docs'']\<rparr>))) \<and>
   ''notes/a.md'' \<noteq> [] \<and> \<not> startsWith ''notes/a.md'' ''/'' \<and>
   [] \<in> set [[], ''docs''] \<and>
   \<not> isInEnabledFolder ''notes/a.md'' [[]] \<and>
   isInEnabledFolder ''notes/a.md'' [] \<and>
   \<not> isInEnabledFolder ''notes/a.md'' [[], ''docs''] \<and>
   activeFilePath (mockApp (Some ''notes/a.md'')) = Some ''notes/a.md'' \<and>
   enabledFolders (createValidSettings\<lparr>enabledFolders := [[]]\<rparr>) = [[]] \<and>
   validateConditions (mockApp (Some ''notes/a.md''))
       (createValidSettings\<lparr>enabledFolders := [[]]\<rparr>)
     = (False, [(''Current folder is not enabled for uploads'', 4000)]) \<and>
   network (handleDrop (replaceDisallowed pathIllegal) twoEnv
       [createMockFile ''image.png'' ''image/png''] (mockApp (Some ''notes/a.md''))
       (createValidSettings\<lparr>enabledFolders := [[]]\<rparr>)) = []"
proof -
  let ?d = "createValidSettings\<lparr>enabledFolders := [''docs'']\<rparr>"
  let ?s = "createValidSettings\<lparr>enabledFolders := [[]]\<rparr>"
  let ?app = "mockApp (Some ''notes/a.md'')"
  have a: "''notes/a.md'' \<noteq> [] \<and> \<not> startsWith ''notes/a.md'' ''/''"
    by (simp add: startsWith_def)
  have m: "[] \<in> set [[], ''docs'']"
    by simp
  have b: "activeFilePath ?app = Some ''notes/a.md''" "enabledFolders ?s = [[]]"
    by (simp_all add: mockApp_def)
  have e: "[] \<notin> set (enabledFolders ?d)"
    by simp
  have f: "enabledFolders (addFolder ''notes '' ?d) = [''docs'', ''notes'']"
    by (simp add: addFolder_def trim_def isWhiteSpace_def)
  note t = root_entry_amended[where filePath = "''notes/a.md''" and folders = "[[], ''docs'']"
      and app = ?app and s = ?s and sanitize = "replaceDisallowed pathIllegal" and benv = twoEnv
      and dropped = "[createMockFile ''image.png'' ''image/png'']" and items = "[]"
      and editor = mockEditor and v = "[]"]
  note t' = root_entry_amended[where s = ?d and v = "''notes ''" and filePath = "[]"
      and folders = "[]" and app = ?app]
  note t'' = root_entry_amended[where s = ?d and v = "''  ''" and filePath = "[]"
      and folders = "[]" and app = ?app]
  have g: "trim ''  '' = []"
    by (simp add: trim_def isWhiteSpace_def)
  have r0: "addFolder (browseChoose ''/'') ?d = ?d"
    using t' by blast
  have r00: "addFolder ''  '' ?d = ?d"
    using t'' g by blast
  have r0': "[] \<notin> set (enabledFolders (addFolder ''notes '' ?d))"
    using t' e by blast
  have r1: "\<not> isInEnabledFolder ''notes/a.md'' [[]]" "isInEnabledFolder ''notes/a.md'' []"
    using t a by blast+
  have "isInEnabledFolder ''notes/a.md'' [[], ''docs'']
      = folderMatch ''notes/a.md'' (removeAll [] [[], ''docs''])"
    using t a m by blast
  then have r2: "\<not> isInEnabledFolder ''notes/a.md'' [[], ''docs'']"
    by (simp add: folderMatch_def startsWith_def)
  have r3: "validateConditions ?app ?s
     = (False, [(''Current folder is not enabled for uploads'', 4000)])"
    using t a b by blast
  have r4: "network (handleDrop (replaceDisallowed pathIllegal) twoEnv
       [createMockFile ''image.png'' ''image/png''] ?app ?s) = []"
    using t a b by blast
  show ?thesis
    using a m b e f g r0 r00 r0' r1 r2 r3 r4 by blast
qed

text \<open>
  Claim C10 as stated fails in what it says of the chooser: the empty string is not
  stored when the root is chosen. With the settings of the tests, whose allow-list is
  empty, choosing the root and pressing Add leaves the settings as they are; the list
  is still empty, and uploads are permitted everywhere, not blocked.
\<close>

theorem root_choice_not_stored_counterexample:
  "browseChoose ''/'' = [] \<and>
   addFolder (browseChoose ''/'') createValidSettings = createValidSettings \<and>
   enabledFolders (addFolder (browseChoose ''/'') createValidSettings) = [] \<and>
   enabledFolders (addFolder (browseChoose ''/'') createValidSettings) \<noteq> [[]] \<and>
   isInEnabledFolder ''notes/a.md''
     (enabledFolders (addFolder (browseChoose ''/'') createValidSettings)) \<and>
   validateConditions (mockApp (Some ''notes/a.md''))
     (addFolder (browseChoose ''/'') createValidSettings) = (True, [])"
  by (simp add: browseChoose_def onChooseItem_def addFolder_def trim_def
      createValidSettings_def isInEnabledFolder_def validateConditions_def)

section \<open>Insertion of the links\<close>

lemma insertLinksFrom_texts: "map fst (insertLinksFrom pos ls) = map markdownLink ls"
  by (induction ls arbitrary: pos) simp_all

lemma insertLinksFrom_length: "length (insertLinksFrom pos ls) = length ls"
  by (induction ls arbitrary: pos) simp_all

lemma insertLinksFrom_position:
  "i < length ls \<Longrightarrow>
   snd (insertLinksFrom pos ls ! i) =
     pos\<lparr>ch := ch pos + length (concat (map markdownLink (take i ls)))\<rparr>"
proof (induction ls arbitrary: pos i)
  case Nil
  then show ?case by simp
next
  case (Cons l ls)
  show ?case
  proof (cases i)
    case 0
    then show ?thesis by simp
  next
    case (Suc j)
    then have "j < length ls"
      using Cons.prems by simp
    then show ?thesis
      using Cons.IH[of j "pos\<lparr>ch := ch pos + length (markdownLink l)\<rparr>"] Suc
      by (simp add: add.assoc)
  qed
qed

lemma insertLinksFrom_step:
  assumes "Suc i < length ls"
  shows "snd (insertLinksFrom pos ls ! Suc i) =
     (snd (insertLinksFrom pos ls ! i))
       \<lparr>ch := ch (snd (insertLinksFrom pos ls ! i)) + length (fst (insertLinksFrom pos ls ! i))\<rparr>"
proof -
  have i: "i < length ls"
    using assms by simp
  have f: "fst (insertLinksFrom pos ls ! i) = markdownLink (ls ! i)"
    using i insertLinksFrom_texts[of pos ls]
    by (metis insertLinksFrom_length nth_map)
  have t: "take (Suc i) ls = take i ls @ [ls ! i]"
    using i by (simp add: take_Suc_conv_app_nth)
  show ?thesis
    by (simp add: insertLinksFrom_position[OF assms] insertLinksFrom_position[OF i] f t add.assoc)
qed




lemma insertLinksFrom_nth_text:
  "i < length ls \<Longrightarrow> fst (insertLinksFrom pos ls ! i) = markdownLink (ls ! i)"
  using insertLinksFrom_texts[of pos ls] by (metis insertLinksFrom_length nth_map)




lemma endOfInsertion_line_feed:
  assumes "CHR 0x0A \<in> set txt"
  shows "line pos < line (endOfInsertion pos txt)"
proof -
  obtain w v vs where "split txt (CHR 0x0A) = w # v # vs"
    using assms split_has_sep by blast
  then show ?thesis
    by (simp add: endOfInsertion_def)
qed


lemma insertLinksFrom_not_end:
  assumes "Suc i < length ls" and "CHR 0x0A \<in> set (markdownLink (ls ! i))"
  shows "snd (insertLinksFrom pos ls ! Suc i) \<noteq>
     endOfInsertion (snd (insertLinksFrom pos ls ! i)) (fst (insertLinksFrom pos ls ! i))"
proof -
  have i: "i < length ls"
    using assms(1) by simp
  have a: "line (snd (insertLinksFrom pos ls ! i)) <
        line (endOfInsertion (snd (insertLinksFrom pos ls ! i))
                (fst (insertLinksFrom pos ls ! i)))"
    using assms(2) by (intro endOfInsertion_line_feed) (simp add: insertLinksFrom_nth_text[OF i])
  have "line (snd (insertLinksFrom pos ls ! Suc i)) = line (snd (insertLinksFrom pos ls ! i))"
    by (simp add: insertLinksFrom_step[OF assms(1)])
  then show ?thesis
    using a by auto
qed

section \<open>The batch in \<open>processImages\<close>\<close>





lemma uploadedUrl_last_segment:
  "\<exists>before. uploadedUrl env s (generateUniqueFileName nm T) = before @ lastSegment nm"
proof (cases "customDomain s = []")
  case True
  then have "uploadedUrl env s (generateUniqueFileName nm T) =
      (''https://'' @ bucketName s @ ''.'' @ replace (endpoint s) ''https://'' '''' @ ''/'' @
       normalizedPrefix (pathPrefix s) @
       (if useYearSubdirectory s then numberToString (fullYear env) @ ''/'' else '''') @
       numberToString T @ ''.'') @ lastSegment nm"
    by (simp add: uploadedUrl_def createUrl_def generateFileKey_def generateUniqueFileName_eq
        Let_def)
  then show ?thesis
    by blast
next
  case False
  then have "uploadedUrl env s (generateUniqueFileName nm T) =
      (customDomain s @ ''/'' @ normalizedPrefix (pathPrefix s) @
       (if useYearSubdirectory s then numberToString (fullYear env) @ ''/'' else '''') @
       numberToString T @ ''.'') @ lastSegment nm"
    by (simp add: uploadedUrl_def createUrl_def generateFileKey_def generateUniqueFileName_eq
        Let_def)
  then show ?thesis
    by blast
qed

lemma imageLink_last_segment:
  "\<exists>before. imageLink shown (uploadedUrl env s (generateUniqueFileName nm T)) =
     before @ lastSegment nm @ '')''"
proof -
  obtain b where "uploadedUrl env s (generateUniqueFileName nm T) = b @ lastSegment nm"
    using uploadedUrl_last_segment by blast
  then have "imageLink shown (uploadedUrl env s (generateUniqueFileName nm T)) =
     (''!['' @ shown @ '']('' @ b) @ lastSegment nm @ '')''"
    by (simp add: imageLink_def)
  then show ?thesis
    by blast
qed


section \<open>Insertion of the links of a batch\<close>




section \<open>The display name in the link\<close>






end
